theory Spec2Isabelle
  imports Complex_Main "HOL-Library.Multiset" "HOL-Library.Log_Nat"
begin

section \<open>Candidate assessment: scoring and progression\<close>

text \<open>
  A shallow embedding of the assessment flow of
  \<^verbatim>\<open>src/components/testing\<close>: the coordinator (\<^verbatim>\<open>TestCoordinator\<close>), the interview
  (\<^verbatim>\<open>AIInterview\<close>) and the typing test (\<^verbatim>\<open>TypingTest\<close>).

  Conventions of the embedding.
  \<^item> A JavaScript number is the rational it denotes (\<open>rat\<close>), or an \<open>int\<close>/\<open>nat\<close> where
    the source only ever produces an integer (a length, a count, \<^verbatim>\<open>Date.now()\<close>).
    The statistics of the typing test, the aggregation of the interview and the
    allocation of the questions pass a computed quotient, product or sum to
    \<^verbatim>\<open>Math.round\<close>: there every operation rounds its result to the nearest double, as the
    program does (\<open>fl\<close>, \<open>fadd\<close>, \<open>fmul\<close>, \<open>fdiv\<close> below). The scores of the stub
    evaluator and the fraud score are sums of decimal literals and keep the decimals they
    denote. The non-finite values that a division by a zero length produces are modelled
    (\<open>jsnum\<close> below).
  \<^item> A string is a list of characters, one element per code unit, so \<open>length\<close> is
    \<^verbatim>\<open>.length\<close>.
  \<^item> A React component is a record of its state variables; an event handler is a function
    from the state it reads to the state after its updates. The updates of one handler are
    applied together, as one batch.
  \<^item> \<^verbatim>\<open>Date.now()\<close> and \<^verbatim>\<open>Math.random()\<close> are parameters of the function that calls them.
\<close>

subsection \<open>Numbers\<close>

text \<open>\<^verbatim>\<open>Math.round\<close> of a finite number: the nearest integer, a tie going up.\<close>

definition Math_round :: "rat \<Rightarrow> int" where
  "Math_round x = \<lfloor>x + 1 / 2\<rfloor>"

text \<open>
  Doubles. A finite double has 53 significant bits; an arithmetic operation returns
  the double nearest to the exact result, a tie going to the even significand.
  \<open>ilog2 a\<close> is the exponent \<open>e\<close> with \<open>2^e \<le> a < 2^(e+1)\<close>, for positive \<open>a\<close>;
  \<open>rne\<close> rounds to the nearest integer, a tie going to the even one.
  The exponent range of the format is not modelled (no overflow, no subnormal numbers),
  and a magnitude of \<open>2^53\<close> or more is kept as it is: no length, clock reading, score or
  count of the program comes near it.
\<close>

definition pow2 :: "int \<Rightarrow> rat" where
  "pow2 k = 2 powi k"

definition ilog2 :: "rat \<Rightarrow> int" where
  "ilog2 a =
     (let (p, q) = quotient_of a; k = bitlen p - bitlen q
      in if pow2 k \<le> a then k else k - 1)"

definition rne :: "rat \<Rightarrow> int" where
  "rne t =
     (let f = \<lfloor>t\<rfloor>; r = t - of_int f
      in if r < 1 / 2 then f
         else if 1 / 2 < r then f + 1
         else if even f then f else f + 1)"

definition fl :: "rat \<Rightarrow> rat" where
  "fl x =
     (if x = 0 \<or> pow2 53 \<le> \<bar>x\<bar> then x
      else (let u = pow2 (ilog2 \<bar>x\<bar> - 52)
            in sgn x * of_int (rne (\<bar>x\<bar> / u)) * u))"

text \<open>
  The operators \<^verbatim>\<open>+\<close>, \<^verbatim>\<open>*\<close> and \<^verbatim>\<open>/\<close> on numbers: the operands are read as doubles
  (a decimal literal such as \<^verbatim>\<open>0.29\<close> is the double nearest to it) and the exact result
  is rounded.
\<close>

definition fadd :: "rat \<Rightarrow> rat \<Rightarrow> rat" where
  "fadd a b = fl (fl a + fl b)"

definition fmul :: "rat \<Rightarrow> rat \<Rightarrow> rat" where
  "fmul a b = fl (fl a * fl b)"

definition fdiv :: "rat \<Rightarrow> rat \<Rightarrow> rat" where
  "fdiv a b = fl (fl a / fl b)"

text \<open>The value of a division whose divisor may be zero.\<close>

datatype jsnum = Fin rat | NaN | PosInf | NegInf

definition js_div :: "rat \<Rightarrow> rat \<Rightarrow> jsnum" where
  "js_div a b =
     (if b \<noteq> 0 then Fin (fdiv a b)
      else if a = 0 then NaN
      else if 0 < a then PosInf else NegInf)"

fun Math_round_js :: "jsnum \<Rightarrow> jsnum" where
  "Math_round_js (Fin x) = Fin (of_int (Math_round x))"
| "Math_round_js NaN = NaN"
| "Math_round_js PosInf = PosInf"
| "Math_round_js NegInf = NegInf"

text \<open>\<^verbatim>\<open>x >= y\<close> for a finite \<open>y\<close>: every comparison with \<^verbatim>\<open>NaN\<close> is false.\<close>

fun js_ge :: "jsnum \<Rightarrow> rat \<Rightarrow> bool" where
  "js_ge (Fin x) y = (y \<le> x)"
| "js_ge NaN y = False"
| "js_ge PosInf y = True"
| "js_ge NegInf y = False"

subsection \<open>Interview: data\<close>

datatype category = coding | dsa | education | achievements | problem_solving

text \<open>
  \<^verbatim>\<open>Question\<close>. The question text is drawn at random from a fixed bank and is only
  displayed; it is left out of the record.
\<close>

record Question =
  qid :: string
  category :: category
  difficulty :: string
  timeLimit :: int
  maxScore :: int

record Answer =
  questionId :: string
  answer :: string
  timeSpent :: int
  autoSubmitted :: bool
  timestamp :: int

record QuestionEvaluation =
  questionId :: string
  aiScore :: rat
  technicalAccuracy :: rat
  problemSolving :: rat
  communication :: rat
  timeManagement :: rat
  creativity :: rat
  feedback :: string
  improvementSuggestions :: "string list"

record timeAnalysis =
  totalTimeSpent :: int
  averageTimePerQuestion :: jsnum
  questionsAutoSubmitted :: nat

record InterviewResults =
  totalScore :: int
  percentageScore :: jsnum
  questionsAttempted :: nat
  questionsCompleted :: nat
  categoryBreakdown :: "category \<Rightarrow> int"
  timeAnalysis :: timeAnalysis
  passed :: bool
  recommendation :: string
  nextSteps :: string
  evaluations :: "QuestionEvaluation list"

text \<open>The \<^verbatim>\<open>questionDistribution\<close> object: one percentage per category.\<close>

record questionDistribution =
  pct_coding :: rat
  pct_dsa :: rat
  pct_education :: rat
  pct_achievements :: rat
  pct_problem_solving :: rat

text \<open>The \<^verbatim>\<open>config\<close> property of \<^verbatim>\<open>AIInterview\<close>.\<close>

record InterviewConfig =
  totalQuestions :: int
  questionDistribution :: questionDistribution
  aiModel :: string
  difficultyLevel :: string
  minimumPassingScore :: rat
  evaluationStrictness :: string
  dynamicQuestionsEnabled :: bool

text \<open>The one exception of the interview: reading a field of \<^verbatim>\<open>undefined\<close>.\<close>

datatype error = TypeError

subsection \<open>Interview: the stub evaluator\<close>

definition generateMockFeedback :: "rat \<Rightarrow> string" where
  "generateMockFeedback score =
     (if 80 \<le> score then
        ''Excellent response! You demonstrated strong understanding and provided a comprehensive answer with good technical depth.''
      else if 60 \<le> score then
        ''Good response with room for improvement. Consider providing more specific examples and diving deeper into technical details.''
      else
        ''Your response shows basic understanding but lacks detail. Try to elaborate more on your thought process and provide concrete examples.'')"

fun generateMockSuggestions :: "category \<Rightarrow> string list" where
  "generateMockSuggestions coding =
     [''Practice explaining your code step-by-step'',
      ''Consider edge cases and error handling'',
      ''Discuss time and space complexity'']"
| "generateMockSuggestions dsa =
     [''Review fundamental data structures'',
      ''Practice algorithm analysis'',
      ''Study common optimization techniques'']"
| "generateMockSuggestions education =
     [''Connect academic concepts to practical applications'',
      ''Highlight relevant coursework'',
      ''Discuss continuous learning initiatives'']"
| "generateMockSuggestions achievements =
     [''Use the STAR method (Situation, Task, Action, Result)'',
      ''Quantify your impact with specific metrics'',
      ''Highlight leadership and collaboration skills'']"
| "generateMockSuggestions problem_solving =
     [''Break down complex problems systematically'',
      ''Consider multiple solution approaches'',
      ''Discuss trade-offs and decision criteria'']"

text \<open>
  The body of the \<^verbatim>\<open>map\<close> callback of \<^verbatim>\<open>processAnswers\<close>, for an answer whose question
  was found. \<open>rnd\<close> is the value of \<^verbatim>\<open>Math.random()\<close>.
\<close>

definition baseScore :: "Answer \<Rightarrow> rat" where
  "baseScore a = min 90 (max 30 (of_nat (length (answer a)) / 10))"

definition timeBonus :: "Question \<Rightarrow> Answer \<Rightarrow> rat" where
  "timeBonus q a = (if of_int (timeSpent a) < of_int (timeLimit q) * (1 / 2 :: rat) then 10 else 0)"

definition evaluateAnswer :: "rat \<Rightarrow> Question \<Rightarrow> Answer \<Rightarrow> QuestionEvaluation" where
  "evaluateAnswer rnd q a =
     (let score = min 100 (baseScore a + timeBonus q a) in
      \<lparr> QuestionEvaluation.questionId = Answer.questionId a,
        aiScore = score,
        technicalAccuracy = score * (9 / 10),
        problemSolving = score * (8 / 10),
        communication = score * (85 / 100),
        timeManagement = (if timeSpent a < timeLimit q then 90 else 60),
        creativity = rnd * 40 + 60,
        feedback = generateMockFeedback score,
        improvementSuggestions = generateMockSuggestions (category q) \<rparr>)"

text \<open>
  \<^verbatim>\<open>processAnswers\<close>. \<^verbatim>\<open>questions.find(...)!\<close> is \<^verbatim>\<open>undefined\<close> for an unknown id, and
  reading its \<^verbatim>\<open>timeLimit\<close> throws. \<open>rnds\<close> supplies one random number per answer;
  a missing one is read as 0.
\<close>

fun processAnswers :: "Question list \<Rightarrow> rat list \<Rightarrow> Answer list \<Rightarrow> error + QuestionEvaluation list" where
  "processAnswers qs rnds [] = Inr []"
| "processAnswers qs rnds (a # as) =
     (case find (\<lambda>q. qid q = Answer.questionId a) qs of
        None \<Rightarrow> Inl TypeError
      | Some q \<Rightarrow>
          (case processAnswers qs (tl rnds) as of
             Inl e \<Rightarrow> Inl e
           | Inr es \<Rightarrow> Inr (evaluateAnswer (case rnds of [] \<Rightarrow> 0 | r # _ \<Rightarrow> r) q a # es)))"

subsection \<open>Interview: aggregation\<close>

text \<open>\<^verbatim>\<open>String.prototype.trim\<close> on the characters of the embedding.\<close>

definition is_space :: "char \<Rightarrow> bool" where
  "is_space c = (c \<in> set [CHR '' '', CHR 0x09, CHR 0x0A, CHR 0x0B, CHR 0x0C, CHR 0x0D, CHR 0xA0])"

definition trim :: "string \<Rightarrow> string" where
  "trim s = rev (dropWhile is_space (rev (dropWhile is_space s)))"

definition categoryResults :: "Question list \<Rightarrow> category \<Rightarrow> QuestionEvaluation list \<Rightarrow> QuestionEvaluation list" where
  "categoryResults qs c processedResults =
     filter (\<lambda>r. case find (\<lambda>q. qid q = QuestionEvaluation.questionId r) qs of
                    None \<Rightarrow> False
                  | Some q \<Rightarrow> category q = c) processedResults"

text \<open>\<^verbatim>\<open>reduce((sum, result) => sum + result.aiScore, 0)\<close>: the additions run in order.\<close>

definition sumScores :: "QuestionEvaluation list \<Rightarrow> rat" where
  "sumScores rs = foldl (\<lambda>sum r. fadd sum (aiScore r)) 0 rs"

definition calculateResults ::
  "Question list \<Rightarrow> InterviewConfig \<Rightarrow> Answer list \<Rightarrow> QuestionEvaluation list \<Rightarrow> InterviewResults" where
  "calculateResults qs config answers processedResults =
     (let total = sumScores processedResults;
          averageScore = js_div total (of_nat (length processedResults));
          percentage = Math_round_js averageScore;
          breakdown = (\<lambda>c. let rs = categoryResults qs c processedResults in
                          if 0 < length rs
                          then Math_round (fdiv (sumScores rs) (of_nat (length rs)))
                          else 0);
          totalTime = foldl (\<lambda>sum a. sum + timeSpent a) 0 answers;
          autoCount = length (filter autoSubmitted answers);
          pass = js_ge percentage (minimumPassingScore config)
      in \<lparr> totalScore = Math_round total,
           percentageScore = percentage,
           questionsAttempted = length answers,
           questionsCompleted = length (filter (\<lambda>a. 0 < length (trim (answer a))) answers),
           categoryBreakdown = breakdown,
           timeAnalysis =
             \<lparr> totalTimeSpent = totalTime,
               averageTimePerQuestion =
                 Math_round_js (js_div (of_int totalTime) (of_nat (length answers))),
               questionsAutoSubmitted = autoCount \<rparr>,
           passed = pass,
           recommendation =
             (if pass then
                ''Candidate demonstrates strong technical capabilities and problem-solving skills. Recommended for next interview round.''
              else
                ''Candidate shows potential but may need additional preparation. Consider providing feedback and scheduling a follow-up assessment.''),
           nextSteps =
             (if pass then ''Schedule technical panel interview with senior team members.''
              else ''Provide detailed feedback and offer study resources for improvement areas.''),
           evaluations = processedResults \<rparr>)"

subsection \<open>Interview: question allocation\<close>

fun getTimeLimit :: "category \<Rightarrow> int" where
  "getTimeLimit coding = 900"
| "getTimeLimit dsa = 600"
| "getTimeLimit education = 300"
| "getTimeLimit achievements = 420"
| "getTimeLimit problem_solving = 720"

fun category_name :: "category \<Rightarrow> string" where
  "category_name coding = ''coding''"
| "category_name dsa = ''dsa''"
| "category_name education = ''education''"
| "category_name achievements = ''achievements''"
| "category_name problem_solving = ''problem_solving''"

text \<open>The decimal digits of a number, as a template literal prints it.\<close>

fun show_nat :: "nat \<Rightarrow> string" where
  "show_nat n =
     (if n < 10 then [''0123456789'' ! n]
      else show_nat (n div 10) @ [''0123456789'' ! (n mod 10)])"

text \<open>\<^verbatim>\<open>Object.keys(config.questionDistribution)\<close>, in the order of the declaration.\<close>

definition categories :: "category list" where
  "categories = [coding, dsa, education, achievements, problem_solving]"

fun percentage :: "questionDistribution \<Rightarrow> category \<Rightarrow> rat" where
  "percentage d coding = pct_coding d"
| "percentage d dsa = pct_dsa d"
| "percentage d education = pct_education d"
| "percentage d achievements = pct_achievements d"
| "percentage d problem_solving = pct_problem_solving d"

definition questionCount :: "InterviewConfig \<Rightarrow> category \<Rightarrow> int" where
  "questionCount config c =
     Math_round (fmul (fdiv (percentage (questionDistribution config) c) 100)
                      (of_int (totalQuestions config)))"

text \<open>
  The object pushed by the inner loop; \<open>now\<close> is the reading of \<^verbatim>\<open>Date.now()\<close> when the
  \<open>i\<close>-th question of a category is built.
\<close>

definition mockQuestion :: "InterviewConfig \<Rightarrow> (category \<Rightarrow> nat \<Rightarrow> nat) \<Rightarrow> category \<Rightarrow> nat \<Rightarrow> Question" where
  "mockQuestion config now c i =
     \<lparr> qid = category_name c @ ''_'' @ show_nat i @ ''_'' @ show_nat (now c i),
       category = c,
       difficulty = difficultyLevel config,
       timeLimit = getTimeLimit c,
       maxScore = 100 \<rparr>"

text \<open>The two nested loops: \<^verbatim>\<open>for (let i = 0; i < questionCount; i++)\<close> runs \<open>nat questionCount\<close> times.\<close>

definition mockQuestions :: "InterviewConfig \<Rightarrow> (category \<Rightarrow> nat \<Rightarrow> nat) \<Rightarrow> Question list" where
  "mockQuestions config now =
     concat (map (\<lambda>c. map (mockQuestion config now c) [0 ..< nat (questionCount config c)]) categories)"

text \<open>
  \<^verbatim>\<open>sort(() => Math.random() - 0.5)\<close> leaves the elements in some order decided by the
  random numbers. The model inserts each element at a position chosen by the next number
  of \<open>rs\<close>, so that every order can come out and no element is lost.
\<close>

fun shuffle :: "nat list \<Rightarrow> 'a list \<Rightarrow> 'a list" where
  "shuffle rs [] = []"
| "shuffle [] (x # xs) = x # xs"
| "shuffle (r # rs) (x # xs) =
     (let ys = shuffle rs xs; k = r mod (length ys + 1) in take k ys @ x # drop k ys)"

definition generateInterviewQuestions ::
  "InterviewConfig \<Rightarrow> (category \<Rightarrow> nat \<Rightarrow> nat) \<Rightarrow> nat list \<Rightarrow> Question list" where
  "generateInterviewQuestions config now rs = shuffle rs (mockQuestions config now)"

subsection \<open>Interview: navigation\<close>

datatype interviewState = IS_loading | IS_ready | IS_active | IS_completed

text \<open>The state variables of \<^verbatim>\<open>AIInterview\<close>.\<close>

record AIInterview =
  interviewState :: interviewState
  questions :: "Question list"
  currentQuestionIndex :: nat
  answers :: "Answer list"
  currentAnswer :: string
  questionStartTime :: int
  timeRemaining :: int
  isSubmitting :: bool

text \<open>
  A handler that reads \<^verbatim>\<open>questions[i]\<close> outside the list reads a field of \<^verbatim>\<open>undefined\<close>
  and throws; the model returns \<open>Inl TypeError\<close>. All readings of the clock inside one
  handler are the one value \<open>now\<close>.
\<close>

definition startQuestion :: "nat \<Rightarrow> int \<Rightarrow> AIInterview \<Rightarrow> error + AIInterview" where
  "startQuestion index now st =
     (if index < length (questions st)
      then Inr (st\<lparr> currentQuestionIndex := index,
                    currentAnswer := [],
                    questionStartTime := now,
                    timeRemaining := timeLimit (questions st ! index) \<rparr>)
      else Inl TypeError)"

definition startInterview :: "int \<Rightarrow> AIInterview \<Rightarrow> error + AIInterview" where
  "startInterview now st = startQuestion 0 now (st\<lparr> interviewState := IS_active \<rparr>)"

definition handleAnswerChange :: "string \<Rightarrow> AIInterview \<Rightarrow> AIInterview" where
  "handleAnswerChange v st = st\<lparr> currentAnswer := v \<rparr>"

text \<open>
  \<^verbatim>\<open>completeInterview\<close>: the state becomes \<^verbatim>\<open>completed\<close>; the value is what
  \<^verbatim>\<open>onComplete\<close> receives, or the exception that the \<^verbatim>\<open>catch\<close> reports.
\<close>

definition completeInterview ::
  "InterviewConfig \<Rightarrow> rat list \<Rightarrow> Answer list \<Rightarrow> AIInterview \<Rightarrow> AIInterview \<times> (error + InterviewResults)" where
  "completeInterview config rnds finalAnswers st =
     (st\<lparr> interviewState := IS_completed \<rparr>,
      case processAnswers (questions st) rnds finalAnswers of
        Inl e \<Rightarrow> Inl e
      | Inr processedResults \<Rightarrow>
          Inr (calculateResults (questions st) config finalAnswers processedResults))"

text \<open>
  The common tail of \<^verbatim>\<open>handleSubmitAnswer\<close> and \<^verbatim>\<open>handleAutoSubmit\<close>: append the answer,
  then move on or complete. The second component is \<open>None\<close> while the interview goes on.
\<close>

definition submit ::
  "InterviewConfig \<Rightarrow> rat list \<Rightarrow> int \<Rightarrow> Answer \<Rightarrow> AIInterview
     \<Rightarrow> error + AIInterview \<times> (error + InterviewResults) option" where
  "submit config rnds now a st =
     (let st' = st\<lparr> answers := answers st @ [a] \<rparr> in
      if int (currentQuestionIndex st) < int (length (questions st)) - 1
      then (case startQuestion (currentQuestionIndex st + 1) now st' of
              Inl e \<Rightarrow> Inl e
            | Inr st'' \<Rightarrow> Inr (st'', None))
      else (case completeInterview config rnds (answers st @ [a]) st' of
              (st'', r) \<Rightarrow> Inr (st'', Some r)))"

definition handleSubmitAnswer ::
  "InterviewConfig \<Rightarrow> rat list \<Rightarrow> int \<Rightarrow> AIInterview
     \<Rightarrow> error + AIInterview \<times> (error + InterviewResults) option" where
  "handleSubmitAnswer config rnds now st =
     (if currentQuestionIndex st < length (questions st)
      then submit config rnds now
             \<lparr> Answer.questionId = qid (questions st ! currentQuestionIndex st),
               answer = currentAnswer st,
               timeSpent = (now - questionStartTime st) div 1000,
               autoSubmitted = False,
               timestamp = now \<rparr> st
      else Inl TypeError)"

definition handleAutoSubmit ::
  "InterviewConfig \<Rightarrow> rat list \<Rightarrow> int \<Rightarrow> AIInterview
     \<Rightarrow> error + AIInterview \<times> (error + InterviewResults) option" where
  "handleAutoSubmit config rnds now st =
     (if currentQuestionIndex st < length (questions st)
      then submit config rnds now
             \<lparr> Answer.questionId = qid (questions st ! currentQuestionIndex st),
               answer = currentAnswer st,
               timeSpent = timeLimit (questions st ! currentQuestionIndex st),
               autoSubmitted = True,
               timestamp = now \<rparr> st
      else Inl TypeError)"

text \<open>\<^verbatim>\<open>Array.prototype.findIndex\<close>: the first index whose element satisfies \<open>P\<close>.\<close>

fun findIndex :: "('a \<Rightarrow> bool) \<Rightarrow> 'a list \<Rightarrow> nat option" where
  "findIndex P [] = None"
| "findIndex P (x # xs) =
     (if P x then Some 0 else map_option Suc (findIndex P xs))"

text \<open>The updater that \<^verbatim>\<open>handlePreviousQuestion\<close> passes to \<^verbatim>\<open>setAnswers\<close>.\<close>

definition updateOrAdd :: "Answer \<Rightarrow> Answer list \<Rightarrow> Answer list" where
  "updateOrAdd tempAnswer prev =
     (case findIndex (\<lambda>a. Answer.questionId a = Answer.questionId tempAnswer) prev of
        Some existing \<Rightarrow> prev[existing := tempAnswer]
      | None \<Rightarrow> prev @ [tempAnswer])"

definition handlePreviousQuestion :: "int \<Rightarrow> AIInterview \<Rightarrow> error + AIInterview" where
  "handlePreviousQuestion now st =
     (if 0 < currentQuestionIndex st then
        (if currentQuestionIndex st < length (questions st) then
           (let tempAnswer =
                  \<lparr> Answer.questionId = qid (questions st ! currentQuestionIndex st),
                    answer = currentAnswer st,
                    timeSpent = (now - questionStartTime st) div 1000,
                    autoSubmitted = False,
                    timestamp = now \<rparr>;
                st' = st\<lparr> answers := updateOrAdd tempAnswer (answers st) \<rparr>
            in case startQuestion (currentQuestionIndex st - 1) now st' of
                 Inl e \<Rightarrow> Inl e
               | Inr st'' \<Rightarrow>
                   (case find (\<lambda>a. Answer.questionId a = qid (questions st ! (currentQuestionIndex st - 1)))
                              (answers st) of
                      Some prevAnswer \<Rightarrow> Inr (st''\<lparr> currentAnswer := answer prevAnswer \<rparr>)
                    | None \<Rightarrow> Inr st''))
         else Inl TypeError)
      else Inr st)"

subsection \<open>Typing test: data\<close>

text \<open>The \<^verbatim>\<open>config\<close> property of \<^verbatim>\<open>TypingTest\<close>.\<close>

record TypingConfig =
  duration :: int
  minimumWpm :: rat
  minimumAccuracy :: rat
  fraudDetectionEnabled :: bool
  fraudSensitivity :: string

record KeystrokeData =
  key :: string
  timestamp :: int
  timeBetweenKeystrokes :: int
  isCorrection :: bool

text \<open>The object that \<^verbatim>\<open>calculateStats\<close> returns and \<^verbatim>\<open>realTimeStats\<close> holds.\<close>

record Stats =
  wpm :: int
  accuracy :: int
  charactersTyped :: nat
  errorsCount :: nat
  correctionsCount :: nat

record TypingTestResult =
  wpm :: int
  accuracy :: int
  charactersTyped :: nat
  errorsMade :: nat
  correctionsMade :: nat
  timeSpent :: int
  passed :: bool
  fraudScore :: rat
  fraudIndicators :: "string list"

datatype testState = TS_ready | TS_active | TS_completed

text \<open>The state variables and the reference \<^verbatim>\<open>lastKeystrokeRef\<close> of \<^verbatim>\<open>TypingTest\<close>.\<close>

record TypingTest =
  testState :: testState
  currentText :: string
  userInput :: string
  timeRemaining :: int
  startTime :: "int option"
  keystrokeData :: "KeystrokeData list"
  focusLostCount :: nat
  realTimeStats :: Stats
  fraudAlerts :: "string list"
  lastKeystrokeRef :: int

text \<open>The state of the first render; \<open>text\<close> is the paragraph that the mount effect draws.\<close>

definition initialTypingTest :: "TypingConfig \<Rightarrow> string \<Rightarrow> TypingTest" where
  "initialTypingTest config text =
     \<lparr> testState = TS_ready,
       currentText = text,
       userInput = [],
       timeRemaining = duration config,
       startTime = None,
       keystrokeData = [],
       focusLostCount = 0,
       realTimeStats = \<lparr> Stats.wpm = 0, accuracy = 100, charactersTyped = 0,
                         errorsCount = 0, correctionsCount = 0 \<rparr>,
       fraudAlerts = [],
       lastKeystrokeRef = 0 \<rparr>"

subsection \<open>Typing test: statistics\<close>

text \<open>
  The \<^verbatim>\<open>for\<close> loop of \<^verbatim>\<open>calculateStats\<close>: it walks both strings from index 0 and stops
  at the end of the shorter one; the pair is \<open>(correctChars, errors)\<close>.
\<close>

fun compareChars :: "string \<Rightarrow> string \<Rightarrow> nat \<times> nat \<Rightarrow> nat \<times> nat" where
  "compareChars (x # xs) (y # ys) (correctChars, errors) =
     compareChars xs ys (if x = y then (correctChars + 1, errors) else (correctChars, errors + 1))"
| "compareChars [] ys acc = acc"
| "compareChars xs [] acc = acc"

text \<open>
  \<^verbatim>\<open>startTime ? (currentTime - startTime) / 1000 / 60 : 0\<close>, in minutes; a start time
  that is \<^verbatim>\<open>null\<close> or 0 is falsy.
\<close>

definition timeElapsed :: "int option \<Rightarrow> int \<Rightarrow> rat" where
  "timeElapsed start currentTime =
     (case start of
        None \<Rightarrow> 0
      | Some t \<Rightarrow> if t \<noteq> 0 then fdiv (fdiv (of_int (currentTime - t)) 1000) 60 else 0)"

definition calculateStats :: "TypingTest \<Rightarrow> int \<Rightarrow> string \<Rightarrow> string \<Rightarrow> Stats" where
  "calculateStats st currentTime input text =
     (let elapsed = timeElapsed (startTime st) currentTime;
          (correctChars, errors) = compareChars input text (0, 0)
      in \<lparr> Stats.wpm =
             (if 0 < elapsed then Math_round (fdiv (fdiv (of_nat correctChars) 5) elapsed) else 0),
           accuracy =
             (if 0 < length input
              then Math_round (fmul (fdiv (of_nat correctChars) (of_nat (length input))) 100)
              else 100),
           charactersTyped = length input,
           errorsCount = errors,
           correctionsCount = length (filter isCorrection (keystrokeData st)) \<rparr>)"

subsection \<open>Typing test: fraud score and completion\<close>

definition avgTimeBetweenKeystrokes :: "KeystrokeData list \<Rightarrow> rat" where
  "avgTimeBetweenKeystrokes ks =
     (if 1 < length ks
      then of_int (foldl (\<lambda>sum k. sum + timeBetweenKeystrokes k) 0 (tl ks))
             / of_int (int (length ks) - 1)
      else 0)"

text \<open>
  The fraud block of \<^verbatim>\<open>handleTestComplete\<close>: the three rules run in this order, each
  adding to the score and appending to the indicators.
\<close>

definition fraudAnalysis :: "TypingConfig \<Rightarrow> TypingTest \<Rightarrow> rat \<times> string list" where
  "fraudAnalysis config st =
     (if fraudDetectionEnabled config then
        (let (s1, i1) =
               (if avgTimeBetweenKeystrokes (keystrokeData st) < 50
                then (0 + 3 / 10, [''Unusually fast typing detected''])
                else (0, []));
             (s2, i2) =
               (if 2 < focusLostCount st
                then (s1 + 2 / 10, i1 @ [''Multiple focus losses during test''])
                else (s1, i1));
             (s3, i3) =
               (if 0 < length (fraudAlerts st)
                then (s2 + 2 / 10, i2 @ fraudAlerts st)
                else (s2, i2))
         in (s3, i3))
      else (0, []))"

text \<open>
  \<^verbatim>\<open>handleTestComplete\<close>: the state becomes \<^verbatim>\<open>completed\<close> and \<^verbatim>\<open>onComplete\<close> receives the
  result. \<^verbatim>\<open>autoSubmitted\<close> is only logged.
\<close>

definition handleTestComplete ::
  "TypingConfig \<Rightarrow> bool \<Rightarrow> int \<Rightarrow> TypingTest \<Rightarrow> TypingTest \<times> TypingTestResult" where
  "handleTestComplete config auto currentTime st =
     (let finalStats = calculateStats st currentTime (userInput st) (currentText st);
          spent = duration config - timeRemaining st;
          (score, indicators) = fraudAnalysis config st;
          pass = (minimumWpm config \<le> of_int (Stats.wpm finalStats)
                  \<and> minimumAccuracy config \<le> of_int (Stats.accuracy finalStats)
                  \<and> score < 7 / 10)
      in (st\<lparr> testState := TS_completed \<rparr>,
          \<lparr> TypingTestResult.wpm = Stats.wpm finalStats,
            accuracy = Stats.accuracy finalStats,
            charactersTyped = Stats.charactersTyped finalStats,
            errorsMade = errorsCount finalStats,
            correctionsMade = correctionsCount finalStats,
            timeSpent = spent,
            passed = pass,
            fraudScore = of_int (Math_round (score * 100)) / 100,
            fraudIndicators = indicators \<rparr>))"

definition startTest :: "int \<Rightarrow> TypingTest \<Rightarrow> TypingTest" where
  "startTest now st = st\<lparr> testState := TS_active, startTime := Some now \<rparr>"

definition handleFocusLoss :: "TypingConfig \<Rightarrow> TypingTest \<Rightarrow> TypingTest" where
  "handleFocusLoss config st =
     (if testState st = TS_active
      then st\<lparr> focusLostCount := focusLostCount st + 1,
               fraudAlerts := (if fraudDetectionEnabled config
                               then fraudAlerts st @ [''Browser focus lost during test'']
                               else fraudAlerts st) \<rparr>
      else st)"

definition handleVisibilityChange :: "TypingConfig \<Rightarrow> bool \<Rightarrow> TypingTest \<Rightarrow> TypingTest" where
  "handleVisibilityChange config hidden st =
     (if hidden \<and> testState st = TS_active then handleFocusLoss config st else st)"

text \<open>
  \<^verbatim>\<open>handleInputChange\<close>. The statistics and the completion are computed by the closures
  of the current render, so they read the state \<open>st\<close> as it was before this event; the
  result is \<open>None\<close> unless the input has reached the length of the text.
\<close>

definition handleInputChange ::
  "TypingConfig \<Rightarrow> string \<Rightarrow> int \<Rightarrow> TypingTest \<Rightarrow> TypingTest \<times> TypingTestResult option" where
  "handleInputChange config newInput currentTime st =
     (let st1 = (if testState st = TS_ready then startTest currentTime st else st);
          between = (if lastKeystrokeRef st \<noteq> 0 then currentTime - lastKeystrokeRef st else 0);
          st2 = (if fraudDetectionEnabled config then
                   st1\<lparr> fraudAlerts :=
                          (if between < 10 \<and> length (userInput st) + 5 < length newInput
                           then fraudAlerts st1 @ [''Suspicious rapid typing detected'']
                           else fraudAlerts st1),
                        keystrokeData := keystrokeData st1 @
                          [\<lparr> key = (if newInput = [] then ''backspace'' else [last newInput]),
                             timestamp = currentTime,
                             timeBetweenKeystrokes = between,
                             isCorrection = (length newInput < length (userInput st)) \<rparr>],
                        lastKeystrokeRef := currentTime \<rparr>
                 else st1);
          st3 = st2\<lparr> userInput := newInput,
                      realTimeStats := calculateStats st currentTime newInput (currentText st) \<rparr>
      in if length (currentText st) \<le> length newInput
         then (st3\<lparr> testState := TS_completed \<rparr>,
               Some (snd (handleTestComplete config False currentTime st)))
         else (st3, None))"

text \<open>The countdown effect: one firing of the timer, or the completion at zero.\<close>

definition tick :: "TypingConfig \<Rightarrow> int \<Rightarrow> TypingTest \<Rightarrow> TypingTest \<times> TypingTestResult option" where
  "tick config currentTime st =
     (if testState st = TS_active \<and> 0 < timeRemaining st
      then (st\<lparr> timeRemaining := timeRemaining st - 1 \<rparr>, None)
      else if timeRemaining st = 0 \<and> testState st = TS_active
      then (case handleTestComplete config True currentTime st of (st', r) \<Rightarrow> (st', Some r))
      else (st, None))"

text \<open>
  What can happen to a mounted typing test. The start button is rendered only in state
  \<^verbatim>\<open>ready\<close>, the text area and the early submit button only in state \<^verbatim>\<open>active\<close>; the
  window listeners and the timer are always there.
\<close>

datatype typing_event =
    ClickStart int
  | Change string int
  | Blur
  | VisibilityChange bool
  | Tick int
  | SubmitEarly int

fun typing_step :: "TypingConfig \<Rightarrow> TypingTest \<Rightarrow> typing_event \<Rightarrow> TypingTest" where
  "typing_step config st (ClickStart now) =
     (if testState st = TS_ready then startTest now st else st)"
| "typing_step config st (Change v now) =
     (if testState st = TS_active then fst (handleInputChange config v now st) else st)"
| "typing_step config st Blur = handleFocusLoss config st"
| "typing_step config st (VisibilityChange hidden) = handleVisibilityChange config hidden st"
| "typing_step config st (Tick now) = fst (tick config now st)"
| "typing_step config st (SubmitEarly now) =
     (if testState st = TS_active then fst (handleTestComplete config True now st) else st)"

definition typing_run :: "TypingConfig \<Rightarrow> string \<Rightarrow> typing_event list \<Rightarrow> TypingTest" where
  "typing_run config text evs = foldl (typing_step config) (initialTypingTest config text) evs"

subsection \<open>Coordinator: data\<close>

text \<open>
  The rows that \<^verbatim>\<open>initializeTest\<close> fetches. The numeric columns of a job are integers;
  a column that may be \<^verbatim>\<open>null\<close> is an option. The \<^verbatim>\<open>question_distribution\<close> column is
  \<^verbatim>\<open>null\<close>, a JSON string or an object.
\<close>

datatype distribution_column = QD_null | QD_string string | QD_object questionDistribution

record job_row =
  typing_test_enabled :: bool
  minimum_wpm :: int
  minimum_accuracy :: int
  typing_test_duration :: int
  fraud_detection_enabled :: bool
  fraud_sensitivity :: string
  total_interview_questions :: int
  question_distribution :: distribution_column
  ai_model :: string
  difficulty_level :: string
  minimum_passing_score :: int
  evaluation_strictness :: string
  dynamic_questions_enabled :: bool
  title :: string
  company_name :: "string option"
  ats_minimum_score :: int

record candidate_row =
  resume_url :: "string option"
  experience_years :: "int option"

record application_row =
  ai_score :: "int option"
  candidates :: "candidate_row option"

record JobConfig =
  typingTestEnabled :: bool
  minimumWpm :: int
  minimumAccuracy :: int
  typingTestDuration :: int
  fraudDetectionEnabled :: bool
  fraudSensitivity :: string
  totalInterviewQuestions :: int
  questionDistribution :: questionDistribution
  aiModel :: string
  difficultyLevel :: string
  minimumPassingScore :: int
  evaluationStrictness :: string
  dynamicQuestionsEnabled :: bool
  jobTitle :: string
  company :: string
  atsMinimumScore :: int

record CandidateInfo =
  resume :: string
  jobTitle :: string
  experience :: string
  atsScore :: int

datatype status = pending | active | completed | failed | skipped

datatype phase_results =
    AtsResults int int
  | TypingResults TypingTestResult
  | InterviewPhaseResults InterviewResults

record TestPhase =
  phaseId :: string
  name :: string
  description :: string
  status :: status
  required :: bool
  results :: "phase_results option"

record overallResults =
  typingTestResults :: "phase_results option"
  interviewResults :: InterviewResults
  overallPassed :: bool

record toast =
  toastTitle :: string
  toastDescription :: string
  variant :: string

text \<open>The \<^verbatim>\<open>update\<close> that \<^verbatim>\<open>handleInterviewComplete\<close> sends for the application.\<close>

record status_update =
  newStatus :: string
  new_ai_score :: "jsnum option"

text \<open>
  The state variables of \<^verbatim>\<open>TestCoordinator\<close>, with what it has emitted: the toasts
  shown, the phase ids of the \<^verbatim>\<open>setTimeout\<close> callbacks not yet fired, and the updates
  sent.
\<close>

record TestCoordinator =
  loading :: bool
  jobConfig :: "JobConfig option"
  candidateInfo :: "CandidateInfo option"
  currentPhase :: string
  testPhases :: "TestPhase list"
  overallResults :: "overallResults option"
  toasts :: "toast list"
  pendingTimeouts :: "string list"
  statusUpdates :: "status_update list"

definition initialCoordinator :: TestCoordinator where
  "initialCoordinator =
     \<lparr> loading = True, jobConfig = None, candidateInfo = None, currentPhase = ''overview'',
       testPhases = [], overallResults = None, toasts = [], pendingTimeouts = [],
       statusUpdates = [] \<rparr>"

subsection \<open>Coordinator: initialisation\<close>

definition show_int :: "int \<Rightarrow> string" where
  "show_int i = (if i < 0 then ''-'' @ show_nat (nat (- i)) else show_nat (nat i))"

definition defaultDistribution :: questionDistribution where
  "defaultDistribution =
     \<lparr> pct_coding = 30, pct_dsa = 25, pct_education = 15, pct_achievements = 15,
       pct_problem_solving = 15 \<rparr>"

text \<open>
  The parsing block; \<open>parse\<close> is \<^verbatim>\<open>JSON.parse\<close>, \<open>None\<close> when it throws. An empty string is
  falsy and keeps the default.
\<close>

definition parseDistribution ::
  "(string \<Rightarrow> questionDistribution option) \<Rightarrow> distribution_column \<Rightarrow> questionDistribution" where
  "parseDistribution parse col =
     (case col of
        QD_null \<Rightarrow> defaultDistribution
      | QD_string s \<Rightarrow>
          (if s = [] then defaultDistribution
           else (case parse s of None \<Rightarrow> defaultDistribution | Some d \<Rightarrow> d))
      | QD_object d \<Rightarrow> d)"

text \<open>\<^verbatim>\<open>applicationData.ai_score || 0\<close>.\<close>

definition candidateAtsScore :: "application_row \<Rightarrow> int" where
  "candidateAtsScore applicationData = (case ai_score applicationData of None \<Rightarrow> 0 | Some s \<Rightarrow> s)"

definition initializationError :: toast where
  "initializationError =
     \<lparr> toastTitle = ''Initialization Error'',
       toastDescription = ''Failed to load test configuration. Please try again.'',
       variant = ''destructive'' \<rparr>"

definition atsRequirementNotMet :: "int \<Rightarrow> int \<Rightarrow> toast" where
  "atsRequirementNotMet minimum score =
     \<lparr> toastTitle = ''ATS Score Requirement Not Met'',
       toastDescription = ''Minimum ATS score of '' @ show_int minimum
                          @ '' required. Current score: '' @ show_int score,
       variant = ''destructive'' \<rparr>"

text \<open>
  \<^verbatim>\<open>initializeTest\<close>. A fetch that fails is \<open>None\<close> and lands in the \<^verbatim>\<open>catch\<close>. Below the
  ATS minimum the function shows the toast and returns before any state is set.
\<close>

definition initializeTest ::
  "(string \<Rightarrow> questionDistribution option) \<Rightarrow> job_row option \<Rightarrow> application_row option
     \<Rightarrow> TestCoordinator \<Rightarrow> TestCoordinator" where
  "initializeTest parse jobFetch applicationFetch st =
     (case jobFetch of
        None \<Rightarrow> st\<lparr> toasts := toasts st @ [initializationError] \<rparr>
      | Some jobData \<Rightarrow>
     (case applicationFetch of
        None \<Rightarrow> st\<lparr> toasts := toasts st @ [initializationError] \<rparr>
      | Some applicationData \<Rightarrow>
          (let score = candidateAtsScore applicationData in
           if score < ats_minimum_score jobData
           then st\<lparr> toasts := toasts st @ [atsRequirementNotMet (ats_minimum_score jobData) score] \<rparr>
           else
             (let config =
                    \<lparr> typingTestEnabled = typing_test_enabled jobData,
                      minimumWpm = minimum_wpm jobData,
                      minimumAccuracy = minimum_accuracy jobData,
                      typingTestDuration = typing_test_duration jobData,
                      fraudDetectionEnabled = fraud_detection_enabled jobData,
                      fraudSensitivity = fraud_sensitivity jobData,
                      totalInterviewQuestions = total_interview_questions jobData,
                      questionDistribution = parseDistribution parse (question_distribution jobData),
                      aiModel = ai_model jobData,
                      difficultyLevel = difficulty_level jobData,
                      minimumPassingScore = minimum_passing_score jobData,
                      evaluationStrictness = evaluation_strictness jobData,
                      dynamicQuestionsEnabled = dynamic_questions_enabled jobData,
                      jobTitle = title jobData,
                      company = (case company_name jobData of
                                   None \<Rightarrow> ''Company''
                                 | Some c \<Rightarrow> if c = [] then ''Company'' else c),
                      atsMinimumScore = ats_minimum_score jobData \<rparr>;
                  candidateData =
                    \<lparr> resume = (case candidates applicationData of
                                  None \<Rightarrow> []
                                | Some c \<Rightarrow> (case resume_url c of None \<Rightarrow> [] | Some u \<Rightarrow> u)),
                      jobTitle = JobConfig.jobTitle config,
                      experience = (case candidates applicationData of
                                      None \<Rightarrow> ''0''
                                    | Some c \<Rightarrow> (case experience_years c of
                                                  None \<Rightarrow> ''0''
                                                | Some y \<Rightarrow> show_int y)),
                      atsScore = score \<rparr>;
                  phases =
                    [\<lparr> phaseId = ''ats-check'',
                       name = ''ATS Screening'',
                       description = ''Resume screening through ATS system'',
                       status = (if atsMinimumScore config \<le> score then completed else failed),
                       required = True,
                       results = Some (AtsResults score (atsMinimumScore config)) \<rparr>]
                    @ (if typingTestEnabled config
                       then [\<lparr> phaseId = ''typing-test'',
                               name = ''Typing Speed Test'',
                               description = show_int (JobConfig.minimumWpm config) @ '' WPM at ''
                                 @ show_int (JobConfig.minimumAccuracy config) @ ''% accuracy required'',
                               status = pending,
                               required = True,
                               results = None \<rparr>]
                       else [])
                    @ [\<lparr> phaseId = ''ai-interview'',
                         name = ''AI Technical Interview'',
                         description = show_int (totalInterviewQuestions config)
                           @ '' questions across multiple categories'',
                         status = pending,
                         required = True,
                         results = None \<rparr>]
              in st\<lparr> jobConfig := Some config,
                      candidateInfo := Some candidateData,
                      testPhases := phases,
                      loading := False \<rparr>))))"

subsection \<open>Coordinator: phases\<close>

definition startNextPhase :: "TestCoordinator \<Rightarrow> TestCoordinator" where
  "startNextPhase st =
     (case find (\<lambda>phase. status phase = pending) (testPhases st) of
        Some nextPhase \<Rightarrow> st\<lparr> currentPhase := phaseId nextPhase \<rparr>
      | None \<Rightarrow> st)"

definition handleTypingTestComplete :: "TypingTestResult \<Rightarrow> TestCoordinator \<Rightarrow> TestCoordinator" where
  "handleTypingTestComplete r st =
     (let st' = st\<lparr> testPhases :=
                      map (\<lambda>phase. if phaseId phase = ''typing-test''
                                    then phase\<lparr> status := (if TypingTestResult.passed r then completed else failed),
                                                results := Some (TypingResults r) \<rparr>
                                    else phase) (testPhases st) \<rparr>
      in if TypingTestResult.passed r then
           (case find (\<lambda>phase. phaseId phase = ''ai-interview'') (testPhases st) of
              Some nextPhase \<Rightarrow>
                st'\<lparr> currentPhase := ''overview'',
                     pendingTimeouts := pendingTimeouts st' @ [phaseId nextPhase] \<rparr>
            | None \<Rightarrow> st')
         else st'\<lparr> currentPhase := ''overview'' \<rparr>)"

definition handleInterviewComplete :: "InterviewResults \<Rightarrow> TestCoordinator \<Rightarrow> TestCoordinator" where
  "handleInterviewComplete r st =
     st\<lparr> testPhases :=
           map (\<lambda>phase. if phaseId phase = ''ai-interview''
                         then phase\<lparr> status := (if InterviewResults.passed r then completed else failed),
                                     results := Some (InterviewPhaseResults r) \<rparr>
                         else phase) (testPhases st),
         overallResults :=
           Some \<lparr> typingTestResults =
                    (case find (\<lambda>p. phaseId p = ''typing-test'') (testPhases st) of
                       None \<Rightarrow> None
                     | Some p \<Rightarrow> results p),
                  interviewResults = r,
                  overallPassed = InterviewResults.passed r \<rparr>,
         currentPhase := ''overview'',
         statusUpdates := statusUpdates st @
           [\<lparr> newStatus = (if InterviewResults.passed r then ''Under Review'' else ''Rejected''),
              new_ai_score = (if InterviewResults.passed r then Some (percentageScore r) else None) \<rparr>] \<rparr>"

subsection \<open>Coordinator: what is rendered\<close>

datatype view = LoadingView | TypingTestView | AIInterviewView | OverviewView

text \<open>The chain of early returns of the component body.\<close>

definition render :: "TestCoordinator \<Rightarrow> view" where
  "render st =
     (case (jobConfig st, candidateInfo st) of
        (Some config, Some info) \<Rightarrow>
          if loading st then LoadingView
          else if currentPhase st = ''typing-test'' \<and> typingTestEnabled config then TypingTestView
          else if currentPhase st = ''ai-interview'' then AIInterviewView
          else OverviewView
      | _ \<Rightarrow> LoadingView)"

text \<open>The button \<^verbatim>\<open>Start Next Phase\<close> of the overview: rendered, and not disabled.\<close>

definition startNextPhaseEnabled :: "TestCoordinator \<Rightarrow> bool" where
  "startNextPhaseEnabled st =
     (case (jobConfig st, candidateInfo st) of
        (Some config, Some info) \<Rightarrow>
          render st = OverviewView
          \<and> overallResults st = None
          \<and> atsMinimumScore config \<le> atsScore info
          \<and> \<not> list_all (\<lambda>phase. status phase \<noteq> pending
                                  \<or> (phaseId phase = ''typing-test'' \<and> \<not> typingTestEnabled config))
                         (testPhases st)
      | _ \<Rightarrow> False)"

text \<open>
  What can happen to a mounted coordinator after its initialisation. The children call
  \<^verbatim>\<open>onComplete\<close> and \<^verbatim>\<open>onCancel\<close> only while they are rendered; \<^verbatim>\<open>AIInterview\<close> generates
  its questions when it is mounted, that is when the view becomes \<open>AIInterviewView\<close>.
\<close>

datatype coordinator_event =
    ClickStartNextPhase
  | TypingTestCompleted TypingTestResult
  | TypingTestCancelled
  | InterviewCompleted InterviewResults
  | InterviewCancelled
  | TimeoutFires

fun coordinator_step :: "TestCoordinator \<Rightarrow> coordinator_event \<Rightarrow> TestCoordinator" where
  "coordinator_step st ClickStartNextPhase =
     (if startNextPhaseEnabled st then startNextPhase st else st)"
| "coordinator_step st (TypingTestCompleted r) =
     (if render st = TypingTestView then handleTypingTestComplete r st else st)"
| "coordinator_step st TypingTestCancelled =
     (if render st = TypingTestView then st\<lparr> currentPhase := ''overview'' \<rparr> else st)"
| "coordinator_step st (InterviewCompleted r) =
     (if render st = AIInterviewView then handleInterviewComplete r st else st)"
| "coordinator_step st InterviewCancelled =
     (if render st = AIInterviewView then st\<lparr> currentPhase := ''overview'' \<rparr> else st)"
| "coordinator_step st TimeoutFires =
     (case pendingTimeouts st of
        [] \<Rightarrow> st
      | p # ps \<Rightarrow> st\<lparr> currentPhase := p, pendingTimeouts := ps \<rparr>)"

definition coordinator_run :: "TestCoordinator \<Rightarrow> coordinator_event list \<Rightarrow> TestCoordinator" where
  "coordinator_run st evs = foldl coordinator_step st evs"

text \<open>The overall outcome: \<^verbatim>\<open>overallResults?.overallPassed\<close>, read as a condition.\<close>

definition overallOutcome :: "TestCoordinator \<Rightarrow> bool" where
  "overallOutcome st = (case overallResults st of None \<Rightarrow> False | Some r \<Rightarrow> overallPassed r)"

subsection \<open>Example inputs\<close>

text \<open>An interview configuration with the default distribution and \<open>n\<close> questions.\<close>

definition exampleConfig :: "int \<Rightarrow> InterviewConfig" where
  "exampleConfig n =
     \<lparr> totalQuestions = n, questionDistribution = defaultDistribution, aiModel = ''gpt'',
       difficultyLevel = ''medium'', minimumPassingScore = 70, evaluationStrictness = ''standard'',
       dynamicQuestionsEnabled = False \<rparr>"

text \<open>An evaluation with a given score, and an answer with a given text.\<close>

definition exampleEvaluation :: "string \<Rightarrow> rat \<Rightarrow> QuestionEvaluation" where
  "exampleEvaluation i s =
     \<lparr> QuestionEvaluation.questionId = i, aiScore = s, technicalAccuracy = s * (9 / 10),
       problemSolving = s * (8 / 10), communication = s * (85 / 100), timeManagement = 90,
       creativity = 60, feedback = generateMockFeedback s, improvementSuggestions = [] \<rparr>"

definition exampleAnswer :: "string \<Rightarrow> string \<Rightarrow> Answer" where
  "exampleAnswer i v =
     \<lparr> Answer.questionId = i, answer = v, timeSpent = 10, autoSubmitted = False, timestamp = 0 \<rparr>"

definition exampleQuestion :: "string \<Rightarrow> category \<Rightarrow> Question" where
  "exampleQuestion i c =
     \<lparr> qid = i, category = c, difficulty = ''medium'', timeLimit = getTimeLimit c, maxScore = 100 \<rparr>"

definition exampleTypingConfig :: "bool \<Rightarrow> TypingConfig" where
  "exampleTypingConfig fraud =
     \<lparr> duration = 60, minimumWpm = 40, minimumAccuracy = 90, fraudDetectionEnabled = fraud,
       fraudSensitivity = ''medium'' \<rparr>"

text \<open>
  A typing session: start, three keystrokes 30 ms apart, then three losses of focus.
\<close>

definition exampleTypingEvents :: "typing_event list" where
  "exampleTypingEvents =
     [ClickStart 1000, Change ''a'' 1030, Change ''ab'' 1060, Change ''abc'' 1090, Blur, Blur, Blur]"

text \<open>
  An input of 40 characters against a reference of 40 characters: the first 23 agree.
\<close>

definition typed23of40 :: string where
  "typed23of40 = replicate 23 (CHR ''a'') @ replicate 17 (CHR ''b'')"

definition reference40 :: string where
  "reference40 = replicate 40 (CHR ''a'')"

text \<open>The default distribution with 29 percent for \<open>coding\<close>.\<close>

definition skewedConfig :: "int \<Rightarrow> InterviewConfig" where
  "skewedConfig n =
     \<lparr> totalQuestions = n, questionDistribution = defaultDistribution\<lparr> pct_coding := 29 \<rparr>,
       aiModel = ''gpt'', difficultyLevel = ''medium'', minimumPassingScore = 70,
       evaluationStrictness = ''standard'', dynamicQuestionsEnabled = False \<rparr>"

definition exampleJob :: job_row where
  "exampleJob =
     \<lparr> typing_test_enabled = True, minimum_wpm = 40, minimum_accuracy = 90,
       typing_test_duration = 60, fraud_detection_enabled = True, fraud_sensitivity = ''medium'',
       total_interview_questions = 20, question_distribution = QD_null, ai_model = ''gpt'',
       difficulty_level = ''medium'', minimum_passing_score = 70,
       evaluation_strictness = ''standard'', dynamic_questions_enabled = False,
       title = ''Engineer'', company_name = None, ats_minimum_score = 70 \<rparr>"

definition exampleApplication :: "int \<Rightarrow> application_row" where
  "exampleApplication score = \<lparr> ai_score = Some score, candidates = None \<rparr>"

text \<open>An interview of two questions, ready to start.\<close>

definition exampleInterview :: AIInterview where
  "exampleInterview =
     \<lparr> interviewState = IS_ready,
       questions = [exampleQuestion ''q1'' coding, exampleQuestion ''q2'' dsa],
       currentQuestionIndex = 0, answers = [], currentAnswer = [], questionStartTime = 0,
       timeRemaining = 0, isSubmitting = False \<rparr>"

definition answerLog :: "AIInterview \<Rightarrow> (string \<times> string) list" where
  "answerLog st = map (\<lambda>a. (Answer.questionId a, answer a)) (answers st)"

text \<open>
  The candidate starts the interview, types \<open>first\<close> and presses \<^verbatim>\<open>Next Question\<close>, presses
  \<^verbatim>\<open>Previous\<close>, types \<open>second\<close> over the restored answer and presses \<^verbatim>\<open>Next Question\<close>
  again. The value is the list of (question id, text) of the answers then recorded.
\<close>

definition resubmitScenario :: "error + (string \<times> string) list" where
  "resubmitScenario =
     (case startInterview 1000 exampleInterview of
        Inl e \<Rightarrow> Inl e
      | Inr s0 \<Rightarrow>
     (case handleSubmitAnswer (exampleConfig 2) [] 5000 (handleAnswerChange ''first'' s0) of
        Inl e \<Rightarrow> Inl e
      | Inr (s1, r1) \<Rightarrow>
     (case handlePreviousQuestion 6000 s1 of
        Inl e \<Rightarrow> Inl e
      | Inr s2 \<Rightarrow>
     (case handleSubmitAnswer (exampleConfig 2) [] 9000 (handleAnswerChange ''second'' s2) of
        Inl e \<Rightarrow> Inl e
      | Inr (s3, r3) \<Rightarrow> Inr (answerLog s3)))))"

subsection \<open>An invariant of the typing test\<close>

text \<open>
  Every alert is one of the two messages the component raises, and there is one focus
  alert per counted loss of focus.
\<close>

definition alerts_inv :: "TypingTest \<Rightarrow> bool" where
  "alerts_inv st =
     (focusLostCount st = length (filter (\<lambda>a. a = ''Browser focus lost during test'') (fraudAlerts st))
      \<and> set (fraudAlerts st) \<subseteq> {''Browser focus lost during test'', ''Suspicious rapid typing detected''})"

section \<open>Properties\<close>

subsection \<open>Rounding to the nearest double\<close>

text \<open>
  The rounding \<open>fl\<close> is positive on positive numbers, monotone, and leaves every integer
  as it is.
\<close>

lemma pow2_pos: "0 < pow2 k"
  by (simp add: pow2_def)

lemma pow2_add: "pow2 (m + n) = pow2 m * pow2 n"
  by (simp add: pow2_def power_int_add)

lemma pow2_less_cancel: "pow2 m < pow2 n \<Longrightarrow> m < n"
  unfolding pow2_def
  using power_int_increasing [of n m "2::rat"] by (cases "m < n") auto

lemma pow2_mono: "m \<le> n \<Longrightarrow> pow2 m \<le> pow2 n"
  unfolding pow2_def by (rule power_int_increasing) simp_all

lemma pow2_nat: "pow2 (int n) = of_int (2 ^ n)"
  by (simp add: pow2_def)

lemma pow2_split: "pow2 e = pow2 k * pow2 (e - k)"
  using pow2_add [of k "e - k"] by simp

lemma pow2_0: "pow2 0 = 1"
  by (simp add: pow2_def)

lemma pow2_split_53: "pow2 (e + 1) = pow2 53 * pow2 (e - 52)"
proof -
  have "e + 1 = 53 + (e - 52)" by simp
  then show ?thesis by (simp only: pow2_add)
qed

lemma bitlen_pow2_bounds:
  assumes "0 < p"
  shows "pow2 (bitlen p - 1) \<le> of_int p \<and> of_int p < pow2 (bitlen p)"
proof -
  from bitlen_bounds [OF assms]
  have b: "2 ^ nat (bitlen p - 1) \<le> p" "p < 2 ^ nat (bitlen p)" by auto
  have ge1: "1 \<le> bitlen p"
    using assms by (simp add: bitlen_alt_def)
  have "pow2 (bitlen p - 1) = of_int (2 ^ nat (bitlen p - 1))"
    using ge1 pow2_nat [of "nat (bitlen p - 1)"] by simp
  moreover have "pow2 (bitlen p) = of_int (2 ^ nat (bitlen p))"
    using ge1 pow2_nat [of "nat (bitlen p)"] by simp
  ultimately show ?thesis
    using b by simp
qed

lemma ilog2_bounds:
  assumes "0 < a"
  shows "pow2 (ilog2 a) \<le> a \<and> a < pow2 (ilog2 a + 1)"
proof -
  obtain p q where pq: "quotient_of a = (p, q)" by (cases "quotient_of a")
  have q: "0 < q" using pq by (rule quotient_of_denom_pos)
  have a: "a = of_int p / of_int q" using pq by (rule quotient_of_div)
  have p: "0 < p" using assms q a by (simp add: zero_less_divide_iff)
  let ?k = "bitlen p - bitlen q"
  from bitlen_pow2_bounds [OF p] bitlen_pow2_bounds [OF q]
  have bp: "pow2 (bitlen p - 1) \<le> of_int p" "of_int p < pow2 (bitlen p)"
   and bq: "pow2 (bitlen q - 1) \<le> of_int q" "of_int q < pow2 (bitlen q)"
    by auto
  have qpos: "(0::rat) < of_int q" using q by simp
  have aq: "a * of_int q = of_int p" using a qpos by simp
  have up: "a < pow2 (?k + 1)"
  proof -
    have "a * of_int q < pow2 (bitlen p)" using aq bp(2) by simp
    also have "\<dots> = pow2 (?k + 1) * pow2 (bitlen q - 1)"
      using pow2_add [of "?k + 1" "bitlen q - 1"] by simp
    also have "\<dots> \<le> pow2 (?k + 1) * of_int q"
      using bq(1) pow2_pos [of "?k + 1"] by (simp add: mult_le_cancel_left)
    finally show ?thesis using qpos by (simp add: mult_less_cancel_right)
  qed
  have lo: "pow2 (?k - 1) \<le> a"
  proof -
    have "pow2 (?k - 1) * of_int q \<le> pow2 (?k - 1) * pow2 (bitlen q)"
      using bq(2) pow2_pos [of "?k - 1"] by (simp add: mult_le_cancel_left)
    also have "\<dots> = pow2 (bitlen p - 1)"
      using pow2_add [of "?k - 1" "bitlen q"] by simp
    also have "\<dots> \<le> a * of_int q" using aq bp(1) by simp
    finally show ?thesis using qpos by (simp add: mult_le_cancel_right)
  qed
  show ?thesis
    using up lo by (auto simp: ilog2_def pq Let_def)
qed

lemma ilog2_mono:
  assumes "0 < a" and "a \<le> b"
  shows "ilog2 a \<le> ilog2 b"
proof -
  have "0 < b" using assms by simp
  from ilog2_bounds [OF assms(1)] ilog2_bounds [OF this]
  have "pow2 (ilog2 a) < pow2 (ilog2 b + 1)" using assms(2) by simp
  then have "ilog2 a < ilog2 b + 1" by (rule pow2_less_cancel)
  then show ?thesis by simp
qed

lemma ilog2_small:
  assumes "0 < a" and "a < pow2 53"
  shows "ilog2 a \<le> 52"
proof -
  from ilog2_bounds [OF assms(1)] have "pow2 (ilog2 a) \<le> a" by simp
  then have "pow2 (ilog2 a) < pow2 53" using assms(2) by simp
  then have "ilog2 a < 53" by (rule pow2_less_cancel)
  then show ?thesis by simp
qed

lemma rne_of_int: "rne (of_int n) = n"
  by (simp add: rne_def)

lemma rne_floor_le: "\<lfloor>t\<rfloor> \<le> rne t"
  by (simp add: rne_def Let_def)

lemma rne_le_floor_Suc: "rne t \<le> \<lfloor>t\<rfloor> + 1"
  by (simp add: rne_def Let_def)

lemma rne_mono:
  assumes "s \<le> t"
  shows "rne s \<le> rne t"
proof (cases "\<lfloor>s\<rfloor> = \<lfloor>t\<rfloor>")
  case True
  then have "s - of_int \<lfloor>s\<rfloor> \<le> t - of_int \<lfloor>t\<rfloor>"
    using assms by simp
  then show ?thesis
    using True by (auto simp: rne_def Let_def)
next
  case False
  then have "\<lfloor>s\<rfloor> < \<lfloor>t\<rfloor>"
    using assms floor_mono [of s t] by simp
  then have "rne s \<le> \<lfloor>t\<rfloor>"
    using rne_le_floor_Suc [of s] by simp
  then show ?thesis
    using rne_floor_le [of t] by simp
qed

lemma fl_0: "fl 0 = 0"
  by (simp add: fl_def)

lemma fl_minus: "fl (- x) = - fl x"
  by (simp add: fl_def Let_def)

lemma fl_small_pos:
  assumes "0 < a" and "a < pow2 53"
  shows "fl a = of_int (rne (a / pow2 (ilog2 a - 52))) * pow2 (ilog2 a - 52)"
  using assms by (simp add: fl_def Let_def)

lemma fl_small_bounds:
  assumes "0 < a" and "a < pow2 53"
  shows "pow2 (ilog2 a) \<le> fl a \<and> fl a \<le> pow2 (ilog2 a + 1)"
proof -
  let ?e = "ilog2 a"
  let ?u = "pow2 (?e - 52)"
  let ?m = "rne (a / ?u)"
  have u: "0 < ?u" by (rule pow2_pos)
  from ilog2_bounds [OF assms(1)] have b: "pow2 ?e \<le> a" "a < pow2 (?e + 1)" by auto
  have e1: "pow2 ?e = pow2 52 * ?u" by (rule pow2_split)
  have e2: "pow2 (?e + 1) = pow2 53 * ?u"
    by (rule pow2_split_53)
  have p52: "pow2 52 = of_int (2 ^ 52)" and p53: "pow2 53 = of_int (2 ^ 53)"
    using pow2_nat [of 52] pow2_nat [of 53] by simp_all
  have "of_int (2 ^ 52) \<le> a / ?u"
    using b(1) u by (simp only: p52 [symmetric] e1 pos_le_divide_eq)
  then have "rne (of_int (2 ^ 52)) \<le> ?m" by (rule rne_mono)
  then have "2 ^ 52 \<le> ?m" by (simp only: rne_of_int)
  then have "(of_int (2 ^ 52) :: rat) \<le> of_int ?m" by (simp only: of_int_le_iff)
  then have m1: "pow2 52 \<le> of_int ?m" by (simp only: p52)
  have "a / ?u \<le> of_int (2 ^ 53)"
    using b(2) u by (simp only: p53 [symmetric] e2 pos_divide_le_eq less_imp_le)
  then have "?m \<le> rne (of_int (2 ^ 53))" by (rule rne_mono)
  then have "?m \<le> 2 ^ 53" by (simp only: rne_of_int)
  then have "(of_int ?m :: rat) \<le> of_int (2 ^ 53)" by (simp only: of_int_le_iff)
  then have m2: "of_int ?m \<le> pow2 53" by (simp only: p53)
  have "pow2 52 * ?u \<le> of_int ?m * ?u"
    using m1 u by (simp add: mult_le_cancel_right)
  moreover have "of_int ?m * ?u \<le> pow2 53 * ?u"
    using m2 u by (simp add: mult_le_cancel_right)
  ultimately show ?thesis
    using fl_small_pos [OF assms] by (simp only: e1 e2)
qed

lemma fl_pos:
  assumes "0 < a"
  shows "0 < fl a"
proof (cases "pow2 53 \<le> a")
  case True
  then show ?thesis using assms by (simp add: fl_def)
next
  case False
  have "0 < pow2 (ilog2 a)" by (rule pow2_pos)
  also have "\<dots> \<le> fl a" using fl_small_bounds [OF assms] False by simp
  finally show ?thesis .
qed

lemma fl_mono_pos:
  assumes "0 < a" and "a \<le> b"
  shows "fl a \<le> fl b"
proof -
  have b: "0 < b" using assms by simp
  show ?thesis
  proof (cases "pow2 53 \<le> a")
    case True
    then show ?thesis using assms by (simp add: fl_def)
  next
    case small_a: False
    then have a53: "a < pow2 53" by simp
    note ba = fl_small_bounds [OF assms(1) a53]
    show ?thesis
    proof (cases "pow2 53 \<le> b")
      case True
      have "fl a \<le> pow2 (ilog2 a + 1)" using ba by simp
      also have "\<dots> \<le> pow2 53"
        using ilog2_small [OF assms(1) a53] by (intro pow2_mono) simp
      also have "\<dots> \<le> b" using True by simp
      also have "b = fl b" using True b by (simp add: fl_def)
      finally show ?thesis .
    next
      case False
      then have b53: "b < pow2 53" by simp
      note bb = fl_small_bounds [OF b b53]
      show ?thesis
      proof (cases "ilog2 a = ilog2 b")
        case True
        let ?u = "pow2 (ilog2 b - 52)"
        have u: "0 < ?u" by (rule pow2_pos)
        have "a / ?u \<le> b / ?u" using assms(2) u by (simp add: divide_right_mono)
        then have "rne (a / ?u) \<le> rne (b / ?u)" by (rule rne_mono)
        then have "(of_int (rne (a / ?u)) :: rat) * ?u \<le> of_int (rne (b / ?u)) * ?u"
          using u by (simp add: mult_le_cancel_right)
        then show ?thesis
          using fl_small_pos [OF assms(1) a53] fl_small_pos [OF b b53] True by simp
      next
        case False
        then have "ilog2 a + 1 \<le> ilog2 b"
          using ilog2_mono [OF assms] by simp
        then have "pow2 (ilog2 a + 1) \<le> pow2 (ilog2 b)"
          by (rule pow2_mono)
        then show ?thesis using ba bb by simp
      qed
    qed
  qed
qed

lemma fl_mono:
  assumes "x \<le> y"
  shows "fl x \<le> fl y"
proof -
  consider "0 < x" | "x = 0" | "x < 0" "0 < y" | "x < 0" "y = 0" | "x < 0" "y < 0"
    by linarith
  then show ?thesis
  proof cases
    case 1
    then show ?thesis using assms by (rule fl_mono_pos)
  next
    case 2
    then show ?thesis
      using assms fl_pos [of y] by (cases "y = 0") (simp_all add: fl_0 less_imp_le)
  next
    case 3
    then have "fl x < 0" "0 < fl y"
      using fl_pos [of "- x"] fl_pos [of y] by (simp_all add: fl_minus)
    then show ?thesis by simp
  next
    case 4
    then have "fl x < 0"
      using fl_pos [of "- x"] by (simp add: fl_minus)
    then show ?thesis using 4 by (simp add: fl_0)
  next
    case 5
    then have "fl (- y) \<le> fl (- x)"
      using assms by (intro fl_mono_pos) simp_all
    then show ?thesis by (simp add: fl_minus)
  qed
qed

lemma fl_of_int_pos:
  assumes "0 < n"
  shows "fl (of_int n) = of_int n"
proof (cases "pow2 53 \<le> of_int n")
  case True
  then show ?thesis using assms by (simp add: fl_def)
next
  case False
  let ?a = "of_int n :: rat"
  have a: "0 < ?a" "?a < pow2 53" using assms False by simp_all
  let ?e = "ilog2 ?a"
  have e: "?e \<le> 52" using a by (rule ilog2_small)
  let ?k = "nat (52 - ?e)"
  have "pow2 (?e - 52) * pow2 (int ?k) = pow2 0"
    using e pow2_add [of "?e - 52" "int ?k"] by simp
  then have u: "pow2 (?e - 52) * of_int (2 ^ ?k) = 1"
    by (simp only: pow2_nat pow2_0)
  have upos: "0 < pow2 (?e - 52)" by (rule pow2_pos)
  have "?a / pow2 (?e - 52) = of_int (n * 2 ^ ?k)"
  proof -
    have "of_int (n * 2 ^ ?k) * pow2 (?e - 52) = ?a * (pow2 (?e - 52) * of_int (2 ^ ?k))"
      by simp
    also have "\<dots> = ?a" by (simp only: u mult_1_right)
    finally show ?thesis using upos by (simp add: divide_eq_eq)
  qed
  then have "rne (?a / pow2 (?e - 52)) = n * 2 ^ ?k"
    by (simp only: rne_of_int)
  then have "fl ?a = of_int (n * 2 ^ ?k) * pow2 (?e - 52)"
    using fl_small_pos [OF a] by simp
  also have "\<dots> = ?a * (pow2 (?e - 52) * of_int (2 ^ ?k))"
    by simp
  also have "\<dots> = ?a" by (simp only: u mult_1_right)
  finally show ?thesis .
qed

lemma fl_of_int: "fl (of_int n) = of_int n"
proof -
  consider "0 < n" | "n = 0" | "n < 0" by linarith
  then show ?thesis
  proof cases
    case 1 then show ?thesis by (rule fl_of_int_pos)
  next
    case 2 then show ?thesis by (simp add: fl_0)
  next
    case 3
    then have "fl (of_int (- n)) = of_int (- n)" by (intro fl_of_int_pos) simp
    then show ?thesis by (simp add: fl_minus)
  qed
qed

text \<open>\<open>Math.round\<close> is monotone and leaves every integer as it is.\<close>

lemma floor_divide_numeral:
  "\<lfloor>(numeral a :: rat) / numeral b\<rfloor> = numeral a div numeral b"
  using floor_divide_of_int_eq [of "numeral a" "numeral b", where ?'a = rat] by simp

lemma Math_round_mono: "x \<le> y \<Longrightarrow> Math_round x \<le> Math_round y"
  by (simp add: Math_round_def floor_mono)

lemma Math_round_of_int: "Math_round (of_int n) = n"
  unfolding Math_round_def by (simp add: floor_eq_iff)

lemma Math_round_ge: "of_int n \<le> x \<Longrightarrow> n \<le> Math_round x"
  using Math_round_mono [of "of_int n" x] by (simp add: Math_round_of_int)

lemma Math_round_le: "x \<le> of_int n \<Longrightarrow> Math_round x \<le> n"
  using Math_round_mono [of x "of_int n"] by (simp add: Math_round_of_int)

lemma fl_of_nat: "fl (of_nat n) = of_nat n"
  using fl_of_int [of "int n"] by simp

lemma fl_ge_of_int: "of_int n \<le> x \<Longrightarrow> of_int n \<le> fl x"
  using fl_mono [of "of_int n" x] by (simp add: fl_of_int)

lemma fl_le_of_int: "x \<le> of_int n \<Longrightarrow> fl x \<le> of_int n"
  using fl_mono [of x "of_int n"] by (simp add: fl_of_int)

lemma fl_nonneg: "0 \<le> x \<Longrightarrow> 0 \<le> fl x"
  using fl_ge_of_int [of 0 x] by simp

lemma fadd_bounds:
  assumes "of_int l \<le> a" "a \<le> of_int h" "of_int l' \<le> b" "b \<le> of_int h'"
  shows "of_int (l + l') \<le> fadd a b \<and> fadd a b \<le> of_int (h + h')"
proof -
  have "of_int l \<le> fl a" "fl a \<le> of_int h" "of_int l' \<le> fl b" "fl b \<le> of_int h'"
    using assms by (simp_all add: fl_ge_of_int fl_le_of_int)
  then have "of_int (l + l') \<le> fl a + fl b" "fl a + fl b \<le> of_int (h + h')"
    by simp_all
  then show ?thesis
    unfolding fadd_def by (simp only: fl_ge_of_int fl_le_of_int)
qed

lemma foldl_fadd_bounds:
  assumes "\<forall>r \<in> set rs. of_int l \<le> aiScore r \<and> aiScore r \<le> of_int h"
    and "of_int (l * int k) \<le> acc" and "acc \<le> of_int (h * int k)"
  shows "of_int (l * int (k + length rs)) \<le> foldl (\<lambda>sum r. fadd sum (aiScore r)) acc rs
       \<and> foldl (\<lambda>sum r. fadd sum (aiScore r)) acc rs \<le> of_int (h * int (k + length rs))"
  using assms
proof (induction rs arbitrary: acc k)
  case Nil
  then show ?case by simp
next
  case (Cons r rs)
  have r: "of_int l \<le> aiScore r" "aiScore r \<le> of_int h"
    using Cons.prems(1) by simp_all
  from fadd_bounds [OF Cons.prems(2) Cons.prems(3) r]
  have "of_int (l * int (Suc k)) \<le> fadd acc (aiScore r)"
       "fadd acc (aiScore r) \<le> of_int (h * int (Suc k))"
    by (simp_all add: algebra_simps)
  moreover have "\<forall>r \<in> set rs. of_int l \<le> aiScore r \<and> aiScore r \<le> of_int h"
    using Cons.prems(1) by simp
  ultimately show ?case
    using Cons.IH [of "Suc k" "fadd acc (aiScore r)"] by simp
qed

lemma sumScores_bounds:
  assumes "\<forall>r \<in> set rs. of_int l \<le> aiScore r \<and> aiScore r \<le> of_int h"
  shows "of_int (l * int (length rs)) \<le> sumScores rs \<and> sumScores rs \<le> of_int (h * int (length rs))"
  using foldl_fadd_bounds [OF assms, of 0 0] by (simp add: sumScores_def)

lemma mean_bounds:
  assumes "rs \<noteq> []" and "\<forall>r \<in> set rs. of_int l \<le> aiScore r \<and> aiScore r \<le> of_int h"
  shows "l \<le> Math_round (fdiv (sumScores rs) (of_nat (length rs)))
       \<and> Math_round (fdiv (sumScores rs) (of_nat (length rs))) \<le> h"
proof -
  let ?n = "of_nat (length rs) :: rat"
  have pos: "0 < ?n" using assms(1) by simp
  note sb = sumScores_bounds [OF assms(2)]
  have s: "of_int (l * int (length rs)) \<le> fl (sumScores rs)"
          "fl (sumScores rs) \<le> of_int (h * int (length rs))"
    by (rule fl_ge_of_int, rule conjunct1 [OF sb]) (rule fl_le_of_int, rule conjunct2 [OF sb])
  have "of_int l \<le> fl (sumScores rs) / ?n"
    using s(1) pos by (simp add: pos_le_divide_eq)
  moreover have "fl (sumScores rs) / ?n \<le> of_int h"
    using s(2) pos by (simp add: pos_divide_le_eq)
  ultimately have "of_int l \<le> fdiv (sumScores rs) ?n" "fdiv (sumScores rs) ?n \<le> of_int h"
    unfolding fdiv_def by (simp_all only: fl_of_nat fl_ge_of_int fl_le_of_int)
  then show ?thesis
    by (simp add: Math_round_ge Math_round_le)
qed

lemma fl_numeral: "fl (numeral k) = numeral k"
  using fl_of_int [of "numeral k"] by simp

lemma fl_1: "fl 1 = 1"
  using fl_of_int [of 1] by simp

lemma Math_round_numeral: "Math_round (numeral k) = numeral k"
  using Math_round_of_int [of "numeral k"] by simp

lemma rne_near:
  assumes "\<bar>t - of_int m\<bar> < 1 / 2"
  shows "rne t = m"
proof -
  have b: "of_int m - 1 / 2 < t" "t < of_int m + 1 / 2"
    using assms by linarith+
  show ?thesis
  proof (cases "of_int m \<le> t")
    case True
    then have "\<lfloor>t\<rfloor> = m"
      using b by (intro floor_unique) auto
    then show ?thesis
      using b by (simp add: rne_def Let_def)
  next
    case False
    then have f: "\<lfloor>t\<rfloor> = m - 1"
      using b by (intro floor_unique) auto
    have "1 / 2 < t - of_int (m - 1)"
      using b by simp
    then show ?thesis
      using f by (simp add: rne_def Let_def)
  qed
qed

lemma rne_tie:
  assumes "t = of_int f + 1 / 2"
  shows "rne t = (if even f then f else f + 1)"
proof -
  have "\<lfloor>t\<rfloor> = f"
    unfolding assms by (intro floor_unique) auto
  then show ?thesis
    using assms by (simp add: rne_def Let_def)
qed

lemma ilog2_unique:
  assumes "pow2 e \<le> a" and "a < pow2 (e + 1)"
  shows "ilog2 a = e"
proof -
  have a: "0 < a"
    using assms(1) pow2_pos [of e] by simp
  note b = ilog2_bounds [OF a]
  have "pow2 (ilog2 a) < pow2 (e + 1)"
    using b assms(2) by simp
  then have "ilog2 a < e + 1" by (rule pow2_less_cancel)
  moreover have "pow2 e < pow2 (ilog2 a + 1)"
    using b assms(1) by simp
  then have "e < ilog2 a + 1" by (rule pow2_less_cancel)
  ultimately show ?thesis by simp
qed

lemma pow2_neg_nat: "pow2 (- int k) = 1 / 2 ^ k"
  by (simp add: pow2_def power_int_minus field_simps)

text \<open>A rounding is checked from its significand \<open>m\<close> and the exponent \<open>k\<close> of its unit \<open>2^-k\<close>.\<close>

lemma fl_cert_rne:
  fixes k :: nat
  assumes "2 ^ 52 \<le> x * 2 ^ k" and "x * 2 ^ k < 2 ^ 53" and "rne (x * 2 ^ k) = m"
    and "y = of_int m / 2 ^ k"
  shows "fl x = y"
proof -
  let ?e = "52 - int k"
  have p: "pow2 ?e = 2 ^ 52 / 2 ^ k" "pow2 (?e + 1) = 2 ^ 53 / 2 ^ k"
    using pow2_add [of 52 "- int k"] pow2_add [of 53 "- int k"] pow2_nat [of 52] pow2_nat [of 53]
    by (simp_all add: pow2_neg_nat)
  have lo: "pow2 ?e \<le> x"
    unfolding p using assms(1) by (simp add: pos_divide_le_eq)
  have hi: "x < pow2 (?e + 1)"
    unfolding p using assms(2) by (simp add: pos_less_divide_eq)
  have e: "ilog2 x = ?e"
    using lo hi by (rule ilog2_unique)
  have x0: "0 < x"
    using lo pow2_pos [of ?e] by simp
  have "pow2 (?e + 1) \<le> pow2 53"
    by (rule pow2_mono) simp
  then have x53: "x < pow2 53"
    using hi by simp
  have u: "pow2 (ilog2 x - 52) = 1 / 2 ^ k"
    unfolding e using pow2_neg_nat [of k] by simp
  have "fl x = of_int (rne (x / pow2 (ilog2 x - 52))) * pow2 (ilog2 x - 52)"
    using x0 x53 by (rule fl_small_pos)
  also have "\<dots> = of_int (rne (x * 2 ^ k)) / 2 ^ k"
    unfolding u by simp
  finally show ?thesis
    using assms(3,4) by simp
qed

lemma fl_cert:
  fixes k :: nat
  assumes "2 ^ 52 \<le> x * 2 ^ k" and "x * 2 ^ k < 2 ^ 53" and "\<bar>x * 2 ^ k - of_int m\<bar> < 1 / 2"
    and "y = of_int m / 2 ^ k"
  shows "fl x = y"
  using assms(1,2) rne_near [OF assms(3)] assms(4) by (rule fl_cert_rne)

lemma fl_cert_tie:
  fixes k :: nat
  assumes "2 ^ 52 \<le> x * 2 ^ k" and "x * 2 ^ k < 2 ^ 53" and "x * 2 ^ k = of_int f + 1 / 2"
    and "y = of_int (if even f then f else f + 1) / 2 ^ k"
  shows "fl x = y"
  using assms(1,2) rne_tie [OF assms(3)] assms(4) by (rule fl_cert_rne)

lemma Math_round_cert:
  assumes "of_int n \<le> x + 1 / 2" and "x + 1 / 2 < of_int n + 1"
  shows "Math_round x = n"
  unfolding Math_round_def using assms by (intro floor_unique) auto

lemma fadd_eval: "fl a = a' \<Longrightarrow> fl b = b' \<Longrightarrow> fl (a' + b') = c \<Longrightarrow> fadd a b = c"
  by (simp add: fadd_def)

lemma fmul_eval: "fl a = a' \<Longrightarrow> fl b = b' \<Longrightarrow> fl (a' * b') = c \<Longrightarrow> fmul a b = c"
  by (simp add: fmul_def)

lemma fdiv_eval: "fl a = a' \<Longrightarrow> fl b = b' \<Longrightarrow> fl (a' / b') = c \<Longrightarrow> fdiv a b = c"
  by (simp add: fdiv_def)

subsection \<open>Evaluated roundings\<close>

text \<open>
  The operations at the numbers of the examples below. Each rounding is checked with
  its significand and the exponent of its unit.
\<close>

lemma sum_603: "fadd 0 (603 / 10) = 4243235273913139 / 70368744177664"
proof (rule fadd_eval [where a' = "0" and b' = "4243235273913139 / 70368744177664"])
  show "fl 0 = 0"
    by (simp add: fl_0 fl_1 fl_numeral)
  show "fl (603 / 10) = 4243235273913139 / 70368744177664"
    by (rule fl_cert [where k = 47 and m = 8486470547826278]) simp_all
  show "fl (0 + (4243235273913139 / 70368744177664)) = 4243235273913139 / 70368744177664"
    by (rule fl_cert [where k = 47 and m = 8486470547826278]) simp_all
qed

lemma sum_603_681: "fadd (4243235273913139 / 70368744177664) (681 / 10) = 1129418344051507 / 8796093022208"
proof (rule fadd_eval [where a' = "4243235273913139 / 70368744177664" and b' = "2396055739249459 / 35184372088832"])
  show "fl (4243235273913139 / 70368744177664) = 4243235273913139 / 70368744177664"
    by (rule fl_cert [where k = 47 and m = 8486470547826278]) simp_all
  show "fl (681 / 10) = 2396055739249459 / 35184372088832"
    by (rule fl_cert [where k = 46 and m = 4792111478498918]) simp_all
  show "fl ((4243235273913139 / 70368744177664) + (2396055739249459 / 35184372088832)) = 1129418344051507 / 8796093022208"
    by (rule fl_cert_tie [where k = 45 and f = 4517673376206028]) simp_all
qed

lemma sum_603_681_801: "fadd (1129418344051507 / 8796093022208) (801 / 10) = 7335941580521471 / 35184372088832"
proof (rule fadd_eval [where a' = "1129418344051507 / 8796093022208" and b' = "2818268204315443 / 35184372088832"])
  show "fl (1129418344051507 / 8796093022208) = 1129418344051507 / 8796093022208"
    by (rule fl_cert [where k = 45 and m = 4517673376206028]) simp_all
  show "fl (801 / 10) = 2818268204315443 / 35184372088832"
    by (rule fl_cert [where k = 46 and m = 5636536408630886]) simp_all
  show "fl ((1129418344051507 / 8796093022208) + (2818268204315443 / 35184372088832)) = 7335941580521471 / 35184372088832"
    by (rule fl_cert [where k = 45 and m = 7335941580521471]) simp_all
qed

lemma mean_603_681_801: "fdiv (7335941580521471 / 35184372088832) 3 = 4890627720347647 / 70368744177664"
proof (rule fdiv_eval [where a' = "7335941580521471 / 35184372088832" and b' = "3"])
  show "fl (7335941580521471 / 35184372088832) = 7335941580521471 / 35184372088832"
    by (rule fl_cert [where k = 45 and m = 7335941580521471]) simp_all
  show "fl 3 = 3"
    by (simp add: fl_0 fl_1 fl_numeral)
  show "fl ((7335941580521471 / 35184372088832) / 3) = 4890627720347647 / 70368744177664"
    by (rule fl_cert [where k = 46 and m = 4890627720347647]) simp_all
qed

lemma round_mean_603_681_801: "Math_round (4890627720347647 / 70368744177664) = 69"
  by (rule Math_round_cert) simp_all

lemma round_sum_603_681_801: "Math_round (7335941580521471 / 35184372088832) = 208"
  by (rule Math_round_cert) simp_all

lemma sum_304: "fadd 0 (152 / 5) = 4278419646001971 / 140737488355328"
proof (rule fadd_eval [where a' = "0" and b' = "4278419646001971 / 140737488355328"])
  show "fl 0 = 0"
    by (simp add: fl_0 fl_1 fl_numeral)
  show "fl (152 / 5) = 4278419646001971 / 140737488355328"
    by (rule fl_cert [where k = 48 and m = 8556839292003942]) simp_all
  show "fl (0 + (4278419646001971 / 140737488355328)) = 4278419646001971 / 140737488355328"
    by (rule fl_cert [where k = 48 and m = 8556839292003942]) simp_all
qed

lemma sum_304_305: "fadd (4278419646001971 / 140737488355328) (61 / 2) = 8570913040839475 / 140737488355328"
proof (rule fadd_eval [where a' = "4278419646001971 / 140737488355328" and b' = "61 / 2"])
  show "fl (4278419646001971 / 140737488355328) = 4278419646001971 / 140737488355328"
    by (rule fl_cert [where k = 48 and m = 8556839292003942]) simp_all
  show "fl (61 / 2) = 61 / 2"
    by (rule fl_cert [where k = 48 and m = 8584986789675008]) simp_all
  show "fl ((4278419646001971 / 140737488355328) + (61 / 2)) = 8570913040839475 / 140737488355328"
    by (rule fl_cert [where k = 47 and m = 8570913040839475]) simp_all
qed

lemma mean_304_305: "fdiv (8570913040839475 / 140737488355328) 2 = 8570913040839475 / 281474976710656"
proof (rule fdiv_eval [where a' = "8570913040839475 / 140737488355328" and b' = "2"])
  show "fl (8570913040839475 / 140737488355328) = 8570913040839475 / 140737488355328"
    by (rule fl_cert [where k = 47 and m = 8570913040839475]) simp_all
  show "fl 2 = 2"
    by (simp add: fl_0 fl_1 fl_numeral)
  show "fl ((8570913040839475 / 140737488355328) / 2) = 8570913040839475 / 281474976710656"
    by (rule fl_cert [where k = 48 and m = 8570913040839475]) simp_all
qed

lemma round_mean_304_305: "Math_round (8570913040839475 / 281474976710656) = 30"
  by (rule Math_round_cert) simp_all

lemma round_sum_304_305: "Math_round (8570913040839475 / 140737488355328) = 61"
  by (rule Math_round_cert) simp_all

lemma half_61: "fdiv 61 2 = 61 / 2"
proof (rule fdiv_eval [where a' = "61" and b' = "2"])
  show "fl 61 = 61"
    by (simp add: fl_0 fl_1 fl_numeral)
  show "fl 2 = 2"
    by (simp add: fl_0 fl_1 fl_numeral)
  show "fl (61 / 2) = 61 / 2"
    by (rule fl_cert [where k = 48 and m = 8584986789675008]) simp_all
qed

lemma round_half_61: "Math_round (61 / 2) = 31"
  by (rule Math_round_cert) simp_all

lemma seconds_60000: "fdiv 60000 1000 = 60"
proof (rule fdiv_eval [where a' = "60000" and b' = "1000"])
  show "fl 60000 = 60000"
    by (simp add: fl_0 fl_1 fl_numeral)
  show "fl 1000 = 1000"
    by (simp add: fl_0 fl_1 fl_numeral)
  show "fl (60000 / 1000) = 60"
    by (simp add: fl_0 fl_1 fl_numeral)
qed

lemma minutes_60: "fdiv 60 60 = 1"
proof (rule fdiv_eval [where a' = "60" and b' = "60"])
  show "fl 60 = 60"
    by (simp add: fl_0 fl_1 fl_numeral)
  show "fl 60 = 60"
    by (simp add: fl_0 fl_1 fl_numeral)
  show "fl (60 / 60) = 1"
    by (simp add: fl_0 fl_1 fl_numeral)
qed

lemma words_4: "fdiv 4 5 = 3602879701896397 / 4503599627370496"
proof (rule fdiv_eval [where a' = "4" and b' = "5"])
  show "fl 4 = 4"
    by (simp add: fl_0 fl_1 fl_numeral)
  show "fl 5 = 5"
    by (simp add: fl_0 fl_1 fl_numeral)
  show "fl (4 / 5) = 3602879701896397 / 4503599627370496"
    by (rule fl_cert [where k = 53 and m = 7205759403792794]) simp_all
qed

lemma wpm_4: "fdiv (3602879701896397 / 4503599627370496) 1 = 3602879701896397 / 4503599627370496"
proof (rule fdiv_eval [where a' = "3602879701896397 / 4503599627370496" and b' = "1"])
  show "fl (3602879701896397 / 4503599627370496) = 3602879701896397 / 4503599627370496"
    by (rule fl_cert [where k = 53 and m = 7205759403792794]) simp_all
  show "fl 1 = 1"
    by (simp add: fl_0 fl_1 fl_numeral)
  show "fl ((3602879701896397 / 4503599627370496) / 1) = 3602879701896397 / 4503599627370496"
    by (rule fl_cert [where k = 53 and m = 7205759403792794]) simp_all
qed

lemma round_wpm_4: "Math_round (3602879701896397 / 4503599627370496) = 1"
  by (rule Math_round_cert) simp_all

lemma percent_4_5: "fmul (3602879701896397 / 4503599627370496) 100 = 80"
proof (rule fmul_eval [where a' = "3602879701896397 / 4503599627370496" and b' = "100"])
  show "fl (3602879701896397 / 4503599627370496) = 3602879701896397 / 4503599627370496"
    by (rule fl_cert [where k = 53 and m = 7205759403792794]) simp_all
  show "fl 100 = 100"
    by (simp add: fl_0 fl_1 fl_numeral)
  show "fl ((3602879701896397 / 4503599627370496) * 100) = 80"
    by (rule fl_cert [where k = 46 and m = 5629499534213120]) simp_all
qed

lemma ratio_23_40: "fdiv 23 40 = 2589569785738035 / 4503599627370496"
proof (rule fdiv_eval [where a' = "23" and b' = "40"])
  show "fl 23 = 23"
    by (simp add: fl_0 fl_1 fl_numeral)
  show "fl 40 = 40"
    by (simp add: fl_0 fl_1 fl_numeral)
  show "fl (23 / 40) = 2589569785738035 / 4503599627370496"
    by (rule fl_cert [where k = 53 and m = 5179139571476070]) simp_all
qed

lemma percent_23_40: "fmul (2589569785738035 / 4503599627370496) 100 = 8092405580431359 / 140737488355328"
proof (rule fmul_eval [where a' = "2589569785738035 / 4503599627370496" and b' = "100"])
  show "fl (2589569785738035 / 4503599627370496) = 2589569785738035 / 4503599627370496"
    by (rule fl_cert [where k = 53 and m = 5179139571476070]) simp_all
  show "fl 100 = 100"
    by (simp add: fl_0 fl_1 fl_numeral)
  show "fl ((2589569785738035 / 4503599627370496) * 100) = 8092405580431359 / 140737488355328"
    by (rule fl_cert [where k = 47 and m = 8092405580431359]) simp_all
qed

lemma round_percent_23_40: "Math_round (8092405580431359 / 140737488355328) = 57"
  by (rule Math_round_cert) simp_all

lemma seconds_64: "fdiv 64 1000 = 1152921504606847 / 18014398509481984"
proof (rule fdiv_eval [where a' = "64" and b' = "1000"])
  show "fl 64 = 64"
    by (simp add: fl_0 fl_1 fl_numeral)
  show "fl 1000 = 1000"
    by (simp add: fl_0 fl_1 fl_numeral)
  show "fl (64 / 1000) = 1152921504606847 / 18014398509481984"
    by (rule fl_cert [where k = 56 and m = 4611686018427388]) simp_all
qed

lemma minutes_64: "fdiv (1152921504606847 / 18014398509481984) 60 = 2459565876494607 / 2305843009213693952"
proof (rule fdiv_eval [where a' = "1152921504606847 / 18014398509481984" and b' = "60"])
  show "fl (1152921504606847 / 18014398509481984) = 1152921504606847 / 18014398509481984"
    by (rule fl_cert [where k = 56 and m = 4611686018427388]) simp_all
  show "fl 60 = 60"
    by (simp add: fl_0 fl_1 fl_numeral)
  show "fl ((1152921504606847 / 18014398509481984) / 60) = 2459565876494607 / 2305843009213693952"
    by (rule fl_cert [where k = 62 and m = 4919131752989214]) simp_all
qed

lemma words_7: "fdiv 7 5 = 3152519739159347 / 2251799813685248"
proof (rule fdiv_eval [where a' = "7" and b' = "5"])
  show "fl 7 = 7"
    by (simp add: fl_0 fl_1 fl_numeral)
  show "fl 5 = 5"
    by (simp add: fl_0 fl_1 fl_numeral)
  show "fl (7 / 5) = 3152519739159347 / 2251799813685248"
    by (rule fl_cert [where k = 52 and m = 6305039478318694]) simp_all
qed

lemma wpm_7: "fdiv (3152519739159347 / 2251799813685248) (2459565876494607 / 2305843009213693952) = 5772436045823999 / 4398046511104"
proof (rule fdiv_eval [where a' = "3152519739159347 / 2251799813685248" and b' = "2459565876494607 / 2305843009213693952"])
  show "fl (3152519739159347 / 2251799813685248) = 3152519739159347 / 2251799813685248"
    by (rule fl_cert [where k = 52 and m = 6305039478318694]) simp_all
  show "fl (2459565876494607 / 2305843009213693952) = 2459565876494607 / 2305843009213693952"
    by (rule fl_cert [where k = 62 and m = 4919131752989214]) simp_all
  show "fl ((3152519739159347 / 2251799813685248) / (2459565876494607 / 2305843009213693952)) = 5772436045823999 / 4398046511104"
    by (rule fl_cert [where k = 42 and m = 5772436045823999]) simp_all
qed

lemma round_wpm_7: "Math_round (5772436045823999 / 4398046511104) = 1312"
  by (rule Math_round_cert) simp_all

lemma share_30: "fdiv 30 100 = 5404319552844595 / 18014398509481984"
proof (rule fdiv_eval [where a' = "30" and b' = "100"])
  show "fl 30 = 30"
    by (simp add: fl_0 fl_1 fl_numeral)
  show "fl 100 = 100"
    by (simp add: fl_0 fl_1 fl_numeral)
  show "fl (30 / 100) = 5404319552844595 / 18014398509481984"
    by (rule fl_cert [where k = 54 and m = 5404319552844595]) simp_all
qed

lemma share_30_of_20: "fmul (5404319552844595 / 18014398509481984) 20 = 6"
proof (rule fmul_eval [where a' = "5404319552844595 / 18014398509481984" and b' = "20"])
  show "fl (5404319552844595 / 18014398509481984) = 5404319552844595 / 18014398509481984"
    by (rule fl_cert [where k = 54 and m = 5404319552844595]) simp_all
  show "fl 20 = 20"
    by (simp add: fl_0 fl_1 fl_numeral)
  show "fl ((5404319552844595 / 18014398509481984) * 20) = 6"
    by (rule fl_cert [where k = 50 and m = 6755399441055744]) simp_all
qed

lemma share_30_of_10: "fmul (5404319552844595 / 18014398509481984) 10 = 3"
proof (rule fmul_eval [where a' = "5404319552844595 / 18014398509481984" and b' = "10"])
  show "fl (5404319552844595 / 18014398509481984) = 5404319552844595 / 18014398509481984"
    by (rule fl_cert [where k = 54 and m = 5404319552844595]) simp_all
  show "fl 10 = 10"
    by (simp add: fl_0 fl_1 fl_numeral)
  show "fl ((5404319552844595 / 18014398509481984) * 10) = 3"
    by (rule fl_cert [where k = 51 and m = 6755399441055744]) simp_all
qed

lemma share_25: "fdiv 25 100 = 1 / 4"
proof (rule fdiv_eval [where a' = "25" and b' = "100"])
  show "fl 25 = 25"
    by (simp add: fl_0 fl_1 fl_numeral)
  show "fl 100 = 100"
    by (simp add: fl_0 fl_1 fl_numeral)
  show "fl (25 / 100) = 1 / 4"
    by (rule fl_cert [where k = 54 and m = 4503599627370496]) simp_all
qed

lemma share_25_of_20: "fmul (1 / 4) 20 = 5"
proof (rule fmul_eval [where a' = "1 / 4" and b' = "20"])
  show "fl (1 / 4) = 1 / 4"
    by (rule fl_cert [where k = 54 and m = 4503599627370496]) simp_all
  show "fl 20 = 20"
    by (simp add: fl_0 fl_1 fl_numeral)
  show "fl ((1 / 4) * 20) = 5"
    by (simp add: fl_0 fl_1 fl_numeral)
qed

lemma share_25_of_10: "fmul (1 / 4) 10 = 5 / 2"
proof (rule fmul_eval [where a' = "1 / 4" and b' = "10"])
  show "fl (1 / 4) = 1 / 4"
    by (rule fl_cert [where k = 54 and m = 4503599627370496]) simp_all
  show "fl 10 = 10"
    by (simp add: fl_0 fl_1 fl_numeral)
  show "fl ((1 / 4) * 10) = 5 / 2"
    by (rule fl_cert [where k = 51 and m = 5629499534213120]) simp_all
qed

lemma round_share_25_of_10: "Math_round (5 / 2) = 3"
  by (rule Math_round_cert) simp_all

lemma share_15: "fdiv 15 100 = 5404319552844595 / 36028797018963968"
proof (rule fdiv_eval [where a' = "15" and b' = "100"])
  show "fl 15 = 15"
    by (simp add: fl_0 fl_1 fl_numeral)
  show "fl 100 = 100"
    by (simp add: fl_0 fl_1 fl_numeral)
  show "fl (15 / 100) = 5404319552844595 / 36028797018963968"
    by (rule fl_cert [where k = 55 and m = 5404319552844595]) simp_all
qed

lemma share_15_of_20: "fmul (5404319552844595 / 36028797018963968) 20 = 3"
proof (rule fmul_eval [where a' = "5404319552844595 / 36028797018963968" and b' = "20"])
  show "fl (5404319552844595 / 36028797018963968) = 5404319552844595 / 36028797018963968"
    by (rule fl_cert [where k = 55 and m = 5404319552844595]) simp_all
  show "fl 20 = 20"
    by (simp add: fl_0 fl_1 fl_numeral)
  show "fl ((5404319552844595 / 36028797018963968) * 20) = 3"
    by (rule fl_cert [where k = 51 and m = 6755399441055744]) simp_all
qed

lemma share_15_of_10: "fmul (5404319552844595 / 36028797018963968) 10 = 3 / 2"
proof (rule fmul_eval [where a' = "5404319552844595 / 36028797018963968" and b' = "10"])
  show "fl (5404319552844595 / 36028797018963968) = 5404319552844595 / 36028797018963968"
    by (rule fl_cert [where k = 55 and m = 5404319552844595]) simp_all
  show "fl 10 = 10"
    by (simp add: fl_0 fl_1 fl_numeral)
  show "fl ((5404319552844595 / 36028797018963968) * 10) = 3 / 2"
    by (rule fl_cert [where k = 52 and m = 6755399441055744]) simp_all
qed

lemma round_share_15_of_10: "Math_round (3 / 2) = 2"
  by (rule Math_round_cert) simp_all

lemma share_15_of_3: "fmul (5404319552844595 / 36028797018963968) 3 = 2026619832316723 / 4503599627370496"
proof (rule fmul_eval [where a' = "5404319552844595 / 36028797018963968" and b' = "3"])
  show "fl (5404319552844595 / 36028797018963968) = 5404319552844595 / 36028797018963968"
    by (rule fl_cert [where k = 55 and m = 5404319552844595]) simp_all
  show "fl 3 = 3"
    by (simp add: fl_0 fl_1 fl_numeral)
  show "fl ((5404319552844595 / 36028797018963968) * 3) = 2026619832316723 / 4503599627370496"
    by (rule fl_cert_tie [where k = 54 and f = 8106479329266892]) simp_all
qed

lemma round_share_15_of_3: "Math_round (2026619832316723 / 4503599627370496) = 0"
  by (rule Math_round_cert) simp_all

lemma share_29: "fdiv 29 100 = 5224175567749775 / 18014398509481984"
proof (rule fdiv_eval [where a' = "29" and b' = "100"])
  show "fl 29 = 29"
    by (simp add: fl_0 fl_1 fl_numeral)
  show "fl 100 = 100"
    by (simp add: fl_0 fl_1 fl_numeral)
  show "fl (29 / 100) = 5224175567749775 / 18014398509481984"
    by (rule fl_cert [where k = 54 and m = 5224175567749775]) simp_all
qed

lemma share_29_of_50: "fmul (5224175567749775 / 18014398509481984) 50 = 8162774324609023 / 562949953421312"
proof (rule fmul_eval [where a' = "5224175567749775 / 18014398509481984" and b' = "50"])
  show "fl (5224175567749775 / 18014398509481984) = 5224175567749775 / 18014398509481984"
    by (rule fl_cert [where k = 54 and m = 5224175567749775]) simp_all
  show "fl 50 = 50"
    by (simp add: fl_0 fl_1 fl_numeral)
  show "fl ((5224175567749775 / 18014398509481984) * 50) = 8162774324609023 / 562949953421312"
    by (rule fl_cert [where k = 49 and m = 8162774324609023]) simp_all
qed

lemma round_share_29_of_50: "Math_round (8162774324609023 / 562949953421312) = 14"
  by (rule Math_round_cert) simp_all

subsection \<open>Interview aggregation\<close>

text \<open>
  C1, as stated, fails for the field \<open>totalScore\<close> of the result. For two answers whose
  evaluations score 30.4 and 30.5, the result holds \<open>totalScore = 61\<close>: not the sum of the
  scores, which is 60.9, but the sum rounded. And \<open>percentageScore\<close> is 30, where
  \<open>round(totalScore / questionsAttempted) = round(61 / 2)\<close> is 31.
\<close>

theorem totalScore_is_rounded_counterexample:
  "questionsAttempted (calculateResults [] (exampleConfig 2)
       [exampleAnswer ''a'' ''x'', exampleAnswer ''b'' ''y'']
       [exampleEvaluation ''a'' (304 / 10), exampleEvaluation ''b'' (305 / 10)]) = 2
   \<and> totalScore (calculateResults [] (exampleConfig 2)
       [exampleAnswer ''a'' ''x'', exampleAnswer ''b'' ''y'']
       [exampleEvaluation ''a'' (304 / 10), exampleEvaluation ''b'' (305 / 10)]) = 61
   \<and> of_int (totalScore (calculateResults [] (exampleConfig 2)
       [exampleAnswer ''a'' ''x'', exampleAnswer ''b'' ''y'']
       [exampleEvaluation ''a'' (304 / 10), exampleEvaluation ''b'' (305 / 10)]))
       \<noteq> sumScores [exampleEvaluation ''a'' (304 / 10), exampleEvaluation ''b'' (305 / 10)]
   \<and> of_int (totalScore (calculateResults [] (exampleConfig 2)
       [exampleAnswer ''a'' ''x'', exampleAnswer ''b'' ''y'']
       [exampleEvaluation ''a'' (304 / 10), exampleEvaluation ''b'' (305 / 10)]))
       \<noteq> (304 / 10 + 305 / 10 :: rat)
   \<and> percentageScore (calculateResults [] (exampleConfig 2)
       [exampleAnswer ''a'' ''x'', exampleAnswer ''b'' ''y'']
       [exampleEvaluation ''a'' (304 / 10), exampleEvaluation ''b'' (305 / 10)]) = Fin 30
   \<and> Math_round (fdiv (of_int (totalScore (calculateResults [] (exampleConfig 2)
         [exampleAnswer ''a'' ''x'', exampleAnswer ''b'' ''y'']
         [exampleEvaluation ''a'' (304 / 10), exampleEvaluation ''b'' (305 / 10)])))
       (of_nat (questionsAttempted (calculateResults [] (exampleConfig 2)
         [exampleAnswer ''a'' ''x'', exampleAnswer ''b'' ''y'']
         [exampleEvaluation ''a'' (304 / 10), exampleEvaluation ''b'' (305 / 10)])))) = 31"
proof -
  define prs where "prs = [exampleEvaluation ''a'' (304 / 10), exampleEvaluation ''b'' (305 / 10)]"
  define as where "as = [exampleAnswer ''a'' ''x'', exampleAnswer ''b'' ''y'']"
  have s: "sumScores prs = 8570913040839475 / 140737488355328"
    unfolding prs_def by (simp add: sumScores_def exampleEvaluation_def sum_304 sum_304_305)
  have l: "length prs = 2" "length as = 2"
    by (simp_all add: prs_def as_def)
  have "questionsAttempted (calculateResults [] (exampleConfig 2) as prs) = 2
      \<and> totalScore (calculateResults [] (exampleConfig 2) as prs) = 61
      \<and> of_int (totalScore (calculateResults [] (exampleConfig 2) as prs)) \<noteq> sumScores prs
      \<and> of_int (totalScore (calculateResults [] (exampleConfig 2) as prs)) \<noteq> (304 / 10 + 305 / 10 :: rat)
      \<and> percentageScore (calculateResults [] (exampleConfig 2) as prs) = Fin 30
      \<and> Math_round (fdiv (of_int (totalScore (calculateResults [] (exampleConfig 2) as prs)))
           (of_nat (questionsAttempted (calculateResults [] (exampleConfig 2) as prs)))) = 31"
    by (simp add: calculateResults_def Let_def js_div_def s l mean_304_305 round_mean_304_305
          round_sum_304_305 half_61 round_half_61)
  then show ?thesis
    unfolding prs_def as_def .
qed

text \<open>
  C1, amended. For a completed interview (at least one answer, one evaluation per answer),
  let \<open>S\<close> be the sum of the \<open>aiScore\<close> values, added in order in double arithmetic and
  not rounded to an integer. Then \<open>percentageScore = round(S / questionsAttempted)\<close>, the
  verdict is \<open>percentageScore >= minimumPassingScore\<close>, boundary included, and the field
  \<open>totalScore\<close> of the result holds \<open>round(S)\<close>.
\<close>

theorem calculateResults_percentage:
  assumes "as \<noteq> []" and "length prs = length as"
  shows "questionsAttempted (calculateResults qs config as prs) = length as
       \<and> percentageScore (calculateResults qs config as prs) =
           Fin (of_int (Math_round (fdiv (sumScores prs) (of_nat (length as)))))
       \<and> InterviewResults.passed (calculateResults qs config as prs) =
           (InterviewConfig.minimumPassingScore config \<le>
              of_int (Math_round (fdiv (sumScores prs) (of_nat (length as)))))
       \<and> totalScore (calculateResults qs config as prs) = Math_round (sumScores prs)"
  using assms
  by (simp add: calculateResults_def Let_def js_div_def)

text \<open>
  The witness: scores 80 and 60 with minimum 70 give percentage 70, passed. Scores 60.3,
  68.1 and 80.1 give percentage 69, not passed, and total 208: the sum of the three
  doubles is just below 208.5.
\<close>

theorem calculateResults_percentage_witness:
  "[exampleAnswer ''a'' ''x'', exampleAnswer ''b'' ''y''] \<noteq> []
   \<and> length [exampleEvaluation ''a'' 80, exampleEvaluation ''b'' 60] =
       length [exampleAnswer ''a'' ''x'', exampleAnswer ''b'' ''y'']
   \<and> InterviewConfig.minimumPassingScore (exampleConfig 2) = 70
   \<and> percentageScore (calculateResults [] (exampleConfig 2)
         [exampleAnswer ''a'' ''x'', exampleAnswer ''b'' ''y'']
         [exampleEvaluation ''a'' 80, exampleEvaluation ''b'' 60]) = Fin 70
   \<and> InterviewResults.passed (calculateResults [] (exampleConfig 2)
         [exampleAnswer ''a'' ''x'', exampleAnswer ''b'' ''y'']
         [exampleEvaluation ''a'' 80, exampleEvaluation ''b'' 60])
   \<and> percentageScore (calculateResults [] (exampleConfig 3)
         [exampleAnswer ''a'' ''x'', exampleAnswer ''b'' ''y'', exampleAnswer ''c'' ''z'']
         [exampleEvaluation ''a'' (603 / 10), exampleEvaluation ''b'' (681 / 10),
          exampleEvaluation ''c'' (801 / 10)]) = Fin 69
   \<and> \<not> InterviewResults.passed (calculateResults [] (exampleConfig 3)
         [exampleAnswer ''a'' ''x'', exampleAnswer ''b'' ''y'', exampleAnswer ''c'' ''z'']
         [exampleEvaluation ''a'' (603 / 10), exampleEvaluation ''b'' (681 / 10),
          exampleEvaluation ''c'' (801 / 10)])
   \<and> totalScore (calculateResults [] (exampleConfig 3)
         [exampleAnswer ''a'' ''x'', exampleAnswer ''b'' ''y'', exampleAnswer ''c'' ''z'']
         [exampleEvaluation ''a'' (603 / 10), exampleEvaluation ''b'' (681 / 10),
          exampleEvaluation ''c'' (801 / 10)]) = 208"
proof -
  define as2 where "as2 = [exampleAnswer ''a'' ''x'', exampleAnswer ''b'' ''y'']"
  define prs2 where "prs2 = [exampleEvaluation ''a'' 80, exampleEvaluation ''b'' 60]"
  define as3 where
    "as3 = [exampleAnswer ''a'' ''x'', exampleAnswer ''b'' ''y'', exampleAnswer ''c'' ''z'']"
  define prs3 where
    "prs3 = [exampleEvaluation ''a'' (603 / 10), exampleEvaluation ''b'' (681 / 10),
             exampleEvaluation ''c'' (801 / 10)]"
  have h2: "as2 \<noteq> []" "length prs2 = length as2"
    by (simp_all add: as2_def prs2_def)
  have h3: "as3 \<noteq> []" "length prs3 = length as3"
    by (simp_all add: as3_def prs3_def)
  have l: "length as2 = 2" "length as3 = 3"
    by (simp_all add: as2_def as3_def)
  have s2: "sumScores prs2 = 140"
    unfolding prs2_def
    by (simp add: sumScores_def exampleEvaluation_def fadd_def fl_0 fl_numeral)
  have m2: "fdiv 140 2 = 70"
    by (simp add: fdiv_def fl_numeral)
  have s3: "sumScores prs3 = 7335941580521471 / 35184372088832"
    unfolding prs3_def
    by (simp add: sumScores_def exampleEvaluation_def sum_603 sum_603_681 sum_603_681_801)
  have c: "InterviewConfig.minimumPassingScore (exampleConfig 2) = 70"
          "InterviewConfig.minimumPassingScore (exampleConfig 3) = 70"
    by (simp_all add: exampleConfig_def)
  from calculateResults_percentage [OF h2, of "[]" "exampleConfig 2"]
  have r2: "percentageScore (calculateResults [] (exampleConfig 2) as2 prs2) = Fin 70
          \<and> InterviewResults.passed (calculateResults [] (exampleConfig 2) as2 prs2)"
    by (simp add: s2 l m2 c Math_round_numeral)
  from calculateResults_percentage [OF h3, of "[]" "exampleConfig 3"]
  have r3: "percentageScore (calculateResults [] (exampleConfig 3) as3 prs3) = Fin 69
          \<and> \<not> InterviewResults.passed (calculateResults [] (exampleConfig 3) as3 prs3)
          \<and> totalScore (calculateResults [] (exampleConfig 3) as3 prs3) = 208"
    by (simp add: s3 l c mean_603_681_801 round_mean_603_681_801 round_sum_603_681_801)
  show ?thesis
    using h2 c(1) r2 r3 unfolding as2_def prs2_def as3_def prs3_def by simp
qed

subsection \<open>The stub evaluator\<close>

lemma evaluateAnswer_aiScore:
  "aiScore (evaluateAnswer rnd q a) = min 100 (baseScore a + timeBonus q a)"
  by (simp add: evaluateAnswer_def Let_def)

lemma aiScore_bounds:
  "30 \<le> aiScore (evaluateAnswer rnd q a) \<and> aiScore (evaluateAnswer rnd q a) \<le> 100"
  by (auto simp add: evaluateAnswer_aiScore baseScore_def timeBonus_def min_def max_def)

lemma processAnswers_total:
  "\<forall>a \<in> set as. Answer.questionId a \<in> qid ` set qs \<Longrightarrow> \<exists>es. processAnswers qs rnds as = Inr es"
proof (induction as arbitrary: rnds)
  case Nil
  then show ?case by simp
next
  case (Cons a as)
  then obtain q where "find (\<lambda>q. qid q = Answer.questionId a) qs = Some q"
    by (cases "find (\<lambda>q. qid q = Answer.questionId a) qs") (auto simp: find_None_iff)
  moreover from Cons obtain es where "processAnswers qs (tl rnds) as = Inr es"
    by fastforce
  ultimately show ?case by simp
qed

lemma processAnswers_Inr:
  "processAnswers qs rnds as = Inr es \<Longrightarrow>
     list_all2 (\<lambda>a e. \<exists>q rnd. find (\<lambda>q. qid q = Answer.questionId a) qs = Some q
                  \<and> e = evaluateAnswer rnd q a) as es"
  by (induction as arbitrary: rnds es) (auto split: option.splits sum.splits)

text \<open>
  C10. When every answer belongs to a question of the interview, the evaluator returns
  one evaluation per answer, each with
  \<open>aiScore = min(100, min(90, max(30, length / 10)) + bonus)\<close>, the bonus being 10 when
  \<open>timeSpent\<close> is below half of the time limit and 0 otherwise. Every \<open>aiScore\<close> lies in
  \<open>[30, 100]\<close>, whatever the answer text, so a blank answer scores at least 30; and the
  percentage score of the interview lies in \<open>[30, 100]\<close> as well.
\<close>

theorem stub_evaluator_score_range:
  assumes "as \<noteq> []" and "\<forall>a \<in> set as. Answer.questionId a \<in> qid ` set qs"
  shows "\<exists>es. processAnswers qs rnds as = Inr es
           \<and> list_all2 (\<lambda>a e. \<exists>q. find (\<lambda>q. qid q = Answer.questionId a) qs = Some q
                  \<and> aiScore e =
                      min 100 (min 90 (max 30 (of_nat (length (answer a)) / 10))
                               + (if of_int (Answer.timeSpent a) < of_int (timeLimit q) * (1 / 2 :: rat)
                                  then 10 else 0))) as es
           \<and> (\<forall>e \<in> set es. 30 \<le> aiScore e \<and> aiScore e \<le> 100)
           \<and> (\<exists>p. percentageScore (calculateResults qs config as es) = Fin p \<and> 30 \<le> p \<and> p \<le> 100)"
proof -
  from assms(2) obtain es where es: "processAnswers qs rnds as = Inr es"
    using processAnswers_total by blast
  have rel: "list_all2 (\<lambda>a e. \<exists>q rnd. find (\<lambda>q. qid q = Answer.questionId a) qs = Some q
                 \<and> e = evaluateAnswer rnd q a) as es"
    using es by (rule processAnswers_Inr)
  have formula: "list_all2 (\<lambda>a e. \<exists>q. find (\<lambda>q. qid q = Answer.questionId a) qs = Some q
                  \<and> aiScore e =
                      min 100 (min 90 (max 30 (of_nat (length (answer a)) / 10))
                               + (if of_int (Answer.timeSpent a) < of_int (timeLimit q) * (1 / 2 :: rat)
                                  then 10 else 0))) as es"
    using rel
    by (rule list_all2_mono) (auto simp: evaluateAnswer_aiScore baseScore_def timeBonus_def)
  have len: "length es = length as"
    using rel by (simp add: list_all2_lengthD)
  have bounds: "\<forall>e \<in> set es. 30 \<le> aiScore e \<and> aiScore e \<le> 100"
  proof
    fix e assume "e \<in> set es"
    then obtain i where i: "i < length es" "es ! i = e"
      by (auto simp: in_set_conv_nth)
    with rel len obtain q rnd where "e = evaluateAnswer rnd q (as ! i)"
      by (auto simp: list_all2_conv_all_nth)
    then show "30 \<le> aiScore e \<and> aiScore e \<le> 100"
      using aiScore_bounds by simp
  qed
  have ne: "es \<noteq> []"
    using len assms(1) by auto
  let ?m = "fdiv (sumScores es) (of_nat (length es))"
  have "\<forall>e \<in> set es. of_int 30 \<le> aiScore e \<and> aiScore e \<le> of_int 100"
    using bounds by simp
  then have m: "30 \<le> Math_round ?m \<and> Math_round ?m \<le> 100"
    by (rule mean_bounds [OF ne])
  have "percentageScore (calculateResults qs config as es) = Fin (of_int (Math_round ?m))"
    using ne by (simp add: calculateResults_def Let_def js_div_def)
  with m have "\<exists>p. percentageScore (calculateResults qs config as es) = Fin p \<and> 30 \<le> p \<and> p \<le> 100"
    by simp
  with es formula bounds show ?thesis by blast
qed

text \<open>The witness: one blank answer, submitted at the time limit, scores exactly 30.\<close>

theorem stub_evaluator_score_range_witness:
  "[(exampleAnswer ''q1'' []) \<lparr> Answer.timeSpent := 900 \<rparr>] \<noteq> []
   \<and> Answer.questionId ((exampleAnswer ''q1'' []) \<lparr> Answer.timeSpent := 900 \<rparr>)
         \<in> qid ` set [exampleQuestion ''q1'' coding]
   \<and> processAnswers [exampleQuestion ''q1'' coding] []
         [(exampleAnswer ''q1'' []) \<lparr> Answer.timeSpent := 900 \<rparr>]
       = Inr [evaluateAnswer 0 (exampleQuestion ''q1'' coding)
                ((exampleAnswer ''q1'' []) \<lparr> Answer.timeSpent := 900 \<rparr>)]
   \<and> aiScore (evaluateAnswer 0 (exampleQuestion ''q1'' coding)
                ((exampleAnswer ''q1'' []) \<lparr> Answer.timeSpent := 900 \<rparr>)) = 30
   \<and> percentageScore (calculateResults [exampleQuestion ''q1'' coding] (exampleConfig 1)
         [(exampleAnswer ''q1'' []) \<lparr> Answer.timeSpent := 900 \<rparr>]
         [evaluateAnswer 0 (exampleQuestion ''q1'' coding)
            ((exampleAnswer ''q1'' []) \<lparr> Answer.timeSpent := 900 \<rparr>)]) = Fin 30"
proof -
  have h1: "[(exampleAnswer ''q1'' []) \<lparr> Answer.timeSpent := 900 \<rparr>] \<noteq> []"
    by simp
  have h2: "\<forall>a \<in> set [(exampleAnswer ''q1'' []) \<lparr> Answer.timeSpent := 900 \<rparr>].
              Answer.questionId a \<in> qid ` set [exampleQuestion ''q1'' coding]"
    by (simp add: exampleAnswer_def exampleQuestion_def)
  have run: "processAnswers [exampleQuestion ''q1'' coding] []
         [(exampleAnswer ''q1'' []) \<lparr> Answer.timeSpent := 900 \<rparr>]
       = Inr [evaluateAnswer 0 (exampleQuestion ''q1'' coding)
                ((exampleAnswer ''q1'' []) \<lparr> Answer.timeSpent := 900 \<rparr>)]"
    by (simp add: exampleAnswer_def exampleQuestion_def)
  have score: "aiScore (evaluateAnswer 0 (exampleQuestion ''q1'' coding)
                ((exampleAnswer ''q1'' []) \<lparr> Answer.timeSpent := 900 \<rparr>)) = 30"
    by (simp add: exampleAnswer_def exampleQuestion_def evaluateAnswer_def baseScore_def
          timeBonus_def Let_def)
  have pct: "percentageScore (calculateResults [exampleQuestion ''q1'' coding] (exampleConfig 1)
         [(exampleAnswer ''q1'' []) \<lparr> Answer.timeSpent := 900 \<rparr>]
         [evaluateAnswer 0 (exampleQuestion ''q1'' coding)
            ((exampleAnswer ''q1'' []) \<lparr> Answer.timeSpent := 900 \<rparr>)]) = Fin 30"
    using score
    by (simp add: calculateResults_def Let_def js_div_def sumScores_def fadd_def fdiv_def
          fl_0 fl_1 fl_numeral Math_round_numeral)
  from stub_evaluator_score_range [OF h1 h2, of "[]" "exampleConfig 1"] run
  have "\<exists>p. percentageScore (calculateResults [exampleQuestion ''q1'' coding] (exampleConfig 1)
         [(exampleAnswer ''q1'' []) \<lparr> Answer.timeSpent := 900 \<rparr>]
         [evaluateAnswer 0 (exampleQuestion ''q1'' coding)
            ((exampleAnswer ''q1'' []) \<lparr> Answer.timeSpent := 900 \<rparr>)]) = Fin p \<and> 30 \<le> p"
    by auto
  with h1 h2 run score pct show ?thesis
    by simp
qed

subsection \<open>Question allocation\<close>

lemma mset_take_drop: "mset (take k ys) + mset (drop k ys) = mset ys"
  by (metis append_take_drop_id mset_append)

lemma mset_shuffle: "mset (shuffle rs xs) = mset xs"
  by (induction rs xs rule: shuffle.induct) (simp_all add: Let_def mset_take_drop)

lemma length_filter_mset_cong:
  "mset xs = mset ys \<Longrightarrow> length (filter P xs) = length (filter P ys)"
  by (metis mset_filter size_mset)

lemma category_mockQuestion: "category (mockQuestion config now c i) = c"
  by (simp add: mockQuestion_def)

lemma filter_mockQuestion_row:
  "filter (\<lambda>q. category q = c) (map (mockQuestion config now c') [0 ..< n]) =
     (if c' = c then map (mockQuestion config now c') [0 ..< n] else [])"
  by (auto simp: filter_map o_def category_mockQuestion filter_empty_conv)

lemma count_mockQuestions:
  "length (filter (\<lambda>q. category q = c) (mockQuestions config now)) = nat (questionCount config c)"
  by (cases c) (simp_all add: mockQuestions_def categories_def filter_mockQuestion_row del: upt.simps)

lemma length_mockQuestions:
  "length (mockQuestions config now) = sum_list (map (\<lambda>c. nat (questionCount config c)) categories)"
  by (simp add: mockQuestions_def categories_def)

text \<open>
  C6. Whatever the shuffle does, the generated list holds, for each category \<open>c\<close>,
  exactly \<open>round(percentage c / 100 * N)\<close> questions (none when that number is not
  positive), the quotient and the product being computed in double arithmetic; and its
  length is the sum of these counts: nothing brings the total back to \<open>N\<close>. With \<open>N = 20\<close>
  and the distribution 30/25/15/15/15 the counts are 6, 5, 3, 3, 3; with \<open>N = 10\<close> the same
  distribution gives 12 questions; with \<open>N = 3\<close> the category \<open>education\<close> rounds to zero
  and has no question; with \<open>N = 50\<close> a share of 29 percent gives 14 questions, the product
  of the doubles being just below 14.5.
\<close>

theorem allocation_counts:
  "length (filter (\<lambda>q. category q = c) (generateInterviewQuestions config now rs)) =
     nat (Math_round (fmul (fdiv (percentage (InterviewConfig.questionDistribution config) c) 100)
                           (of_int (totalQuestions config))))
   \<and> length (generateInterviewQuestions config now rs) =
       sum_list (map (\<lambda>c. nat (questionCount config c)) categories)
   \<and> map (\<lambda>c. length (filter (\<lambda>q. category q = c)
                  (generateInterviewQuestions (exampleConfig 20) now rs))) categories
       = [6, 5, 3, 3, 3]
   \<and> length (generateInterviewQuestions (exampleConfig 10) now rs) = 12
   \<and> filter (\<lambda>q. category q = education) (generateInterviewQuestions (exampleConfig 3) now rs) = []
   \<and> length (filter (\<lambda>q. category q = coding) (generateInterviewQuestions (skewedConfig 50) now rs))
       = 14"
proof -
  have cnt: "length (filter (\<lambda>q. category q = c) (generateInterviewQuestions config now rs))
               = nat (questionCount config c)" for config c
    unfolding generateInterviewQuestions_def
    using length_filter_mset_cong [OF mset_shuffle] count_mockQuestions by metis
  have len: "length (generateInterviewQuestions config now rs) =
               sum_list (map (\<lambda>c. nat (questionCount config c)) categories)" for config
    unfolding generateInterviewQuestions_def
    using mset_shuffle [of rs "mockQuestions config now"] length_mockQuestions [of config now]
    by (metis size_mset)
  have c20: "map (\<lambda>c. nat (questionCount (exampleConfig 20) c)) categories = [6, 5, 3, 3, 3]"
    by (simp add: exampleConfig_def questionCount_def categories_def defaultDistribution_def
          share_30 share_25 share_15 share_30_of_20 share_25_of_20 share_15_of_20
          Math_round_numeral)
  have c10: "sum_list (map (\<lambda>c. nat (questionCount (exampleConfig 10) c)) categories) = 12"
    by (simp add: exampleConfig_def questionCount_def categories_def defaultDistribution_def
          share_30 share_25 share_15 share_30_of_10 share_25_of_10 share_15_of_10
          round_share_25_of_10 round_share_15_of_10 Math_round_numeral)
  have c3: "nat (questionCount (exampleConfig 3) education) = 0"
    by (simp add: exampleConfig_def questionCount_def defaultDistribution_def
          share_15 share_15_of_3 round_share_15_of_3)
  have c50: "nat (questionCount (skewedConfig 50) coding) = 14"
    by (simp add: skewedConfig_def questionCount_def defaultDistribution_def
          share_29 share_29_of_50 round_share_29_of_50)
  have e3: "filter (\<lambda>q. category q = education)
              (generateInterviewQuestions (exampleConfig 3) now rs) = []"
    using cnt [of education "exampleConfig 3"] c3 by simp
  show ?thesis
    using c20 c10 e3 c50 by (simp add: cnt len questionCount_def)
qed

subsection \<open>Typing statistics\<close>

lemma compareChars_acc:
  "compareChars xs ys (c, e) =
     (c + length (filter (\<lambda>(x, y). x = y) (zip xs ys)),
      e + length (filter (\<lambda>(x, y). x \<noteq> y) (zip xs ys)))"
  by (induction xs ys "(c, e)" arbitrary: c e rule: compareChars.induct) auto

lemma count_zip_card:
  "length (filter (\<lambda>(x, y). P x y) (zip xs ys)) =
     card {i. i < min (length xs) (length ys) \<and> P (xs ! i) (ys ! i)}"
proof -
  have "length (filter (\<lambda>(x, y). P x y) (zip xs ys)) =
          card {i. i < length (zip xs ys) \<and> (\<lambda>(x, y). P x y) (zip xs ys ! i)}"
    by (rule length_filter_conv_card)
  also have "{i. i < length (zip xs ys) \<and> (\<lambda>(x, y). P x y) (zip xs ys ! i)} =
             {i. i < min (length xs) (length ys) \<and> P (xs ! i) (ys ! i)}"
    by auto
  finally show ?thesis .
qed

lemma compareChars_card:
  "compareChars inp ref (0, 0) =
     (card {i. i < min (length inp) (length ref) \<and> inp ! i = ref ! i},
      card {i. i < min (length inp) (length ref) \<and> inp ! i \<noteq> ref ! i})"
  by (simp add: compareChars_acc count_zip_card [of "\<lambda>x y. x = y"]
        count_zip_card [of "\<lambda>x y. x \<noteq> y"])

lemma fst_compareChars_le: "fst (compareChars inp ref (0, 0)) \<le> length inp"
  by (simp add: compareChars_acc) (metis length_filter_le length_zip min.cobounded1 le_trans)

lemma startTime_startTest: "startTime (startTest now st) = Some now"
  by (simp add: startTest_def)

lemma startTime_initialTypingTest: "startTime (initialTypingTest config ref) = None"
  by (simp add: initialTypingTest_def)

lemma correct_and_errors:
  "compareChars inp ref (0, 0) = (c, e) \<Longrightarrow>
     card {i. i < min (length inp) (length ref) \<and> inp ! i = ref ! i} = c
     \<and> card {i. i < min (length inp) (length ref) \<and> inp ! i \<noteq> ref ! i} = e"
  using compareChars_card [of inp ref] by simp

text \<open>
  C2. For every input, reference text, start time and clock reading, with \<open>correct\<close> the
  number of positions below the shorter length where input and reference agree:
  the errors are the positions below that length where they differ; \<open>wpm\<close> is
  \<open>round((correct / 5) / elapsed)\<close> when the elapsed minutes are positive and 0 when they
  are zero (or the clock went back); \<open>accuracy\<close> is \<open>round(correct / length input * 100)\<close>,
  and 100 for the empty input, whatever the elapsed time. The quotients and the product
  are those of double arithmetic.
\<close>

theorem calculateStats_formulas:
  "(let correct = card {i. i < min (length inp) (length ref) \<and> inp ! i = ref ! i};
        elapsed = timeElapsed (startTime st) now;
        s = calculateStats st now inp ref
    in errorsCount s = card {i. i < min (length inp) (length ref) \<and> inp ! i \<noteq> ref ! i}
     \<and> (elapsed \<le> 0 \<longrightarrow> Stats.wpm s = 0)
     \<and> (0 < elapsed \<longrightarrow> Stats.wpm s = Math_round (fdiv (fdiv (of_nat correct) 5) elapsed))
     \<and> (length inp = 0 \<longrightarrow> Stats.accuracy s = 100)
     \<and> (length inp \<noteq> 0 \<longrightarrow>
           Stats.accuracy s = Math_round (fmul (fdiv (of_nat correct) (of_nat (length inp))) 100)))"
  by (auto simp add: calculateStats_def Let_def compareChars_card)

text \<open>
  The witness: one minute after the start, an input of five characters with one
  mismatch has 1 word per minute, 80 percent accuracy and one error; the empty input has
  accuracy 100; before the start the speed is 0. An input of 40 characters with 23
  matches has accuracy 57, the product of the doubles being just below 57.5; seven
  matching characters 64 ms after the start make 1312 words per minute.
\<close>

theorem calculateStats_formulas_witness:
  "0 < timeElapsed (startTime (startTest 1000 (initialTypingTest (exampleTypingConfig True) ''abcde''))) 61000
   \<and> timeElapsed (startTime (initialTypingTest (exampleTypingConfig True) ''abcde'')) 61000 \<le> 0
   \<and> length ''abxde'' \<noteq> 0
   \<and> Stats.wpm (calculateStats (startTest 1000 (initialTypingTest (exampleTypingConfig True) ''abcde''))
        61000 ''abxde'' ''abcde'') = 1
   \<and> Stats.accuracy (calculateStats (startTest 1000 (initialTypingTest (exampleTypingConfig True) ''abcde''))
        61000 ''abxde'' ''abcde'') = 80
   \<and> errorsCount (calculateStats (startTest 1000 (initialTypingTest (exampleTypingConfig True) ''abcde''))
        61000 ''abxde'' ''abcde'') = 1
   \<and> Stats.accuracy (calculateStats (startTest 1000 (initialTypingTest (exampleTypingConfig True) ''abcde''))
        61000 [] ''abcde'') = 100
   \<and> Stats.wpm (calculateStats (initialTypingTest (exampleTypingConfig True) ''abcde'')
        61000 ''abxde'' ''abcde'') = 0
   \<and> Stats.accuracy (calculateStats (startTest 1000 (initialTypingTest (exampleTypingConfig True) reference40))
        61000 typed23of40 reference40) = 57
   \<and> errorsCount (calculateStats (startTest 1000 (initialTypingTest (exampleTypingConfig True) reference40))
        61000 typed23of40 reference40) = 17
   \<and> 0 < timeElapsed (startTime (startTest 1000 (initialTypingTest (exampleTypingConfig True) ''abcdefgh''))) 1064
   \<and> Stats.wpm (calculateStats (startTest 1000 (initialTypingTest (exampleTypingConfig True) ''abcdefgh''))
        1064 ''abcdefg'' ''abcdefgh'') = 1312"
proof -
  have minute: "timeElapsed (Some 1000) 61000 = 1"
    by (simp add: timeElapsed_def seconds_60000 minutes_60)
  have blink: "timeElapsed (Some 1000) 1064 = 2459565876494607 / 2305843009213693952"
    by (simp add: timeElapsed_def seconds_64 minutes_64)
  have h1: "0 < timeElapsed (startTime (startTest 1000 (initialTypingTest (exampleTypingConfig True) ''abcde''))) 61000"
    by (simp add: startTime_startTest minute)
  have h2: "timeElapsed (startTime (initialTypingTest (exampleTypingConfig True) ''abcde'')) 61000 \<le> 0"
    by (simp add: startTime_initialTypingTest timeElapsed_def)
  have h3: "length ''abxde'' \<noteq> 0"
    by simp
  have h4: "0 < timeElapsed (startTime (startTest 1000 (initialTypingTest (exampleTypingConfig True) ''abcdefgh''))) 1064"
    by (simp add: startTime_startTest blink)
  have c1: "compareChars ''abxde'' ''abcde'' (0, 0) = (4, 1)"
    by code_simp
  have c2: "compareChars typed23of40 reference40 (0, 0) = (23, 17)"
    by code_simp
  have c3: "compareChars ''abcdefg'' ''abcdefgh'' (0, 0) = (7, 0)"
    by code_simp
  have l2: "length typed23of40 = 40"
    by (simp add: typed23of40_def)
  have v1: "Stats.wpm (calculateStats (startTest 1000 (initialTypingTest (exampleTypingConfig True) ''abcde''))
        61000 ''abxde'' ''abcde'') = 1
   \<and> Stats.accuracy (calculateStats (startTest 1000 (initialTypingTest (exampleTypingConfig True) ''abcde''))
        61000 ''abxde'' ''abcde'') = 80
   \<and> errorsCount (calculateStats (startTest 1000 (initialTypingTest (exampleTypingConfig True) ''abcde''))
        61000 ''abxde'' ''abcde'') = 1"
    using calculateStats_formulas
            [of "''abxde''" "''abcde''"
                "startTest 1000 (initialTypingTest (exampleTypingConfig True) ''abcde'')" 61000]
          correct_and_errors [OF c1] h1
    by (simp add: Let_def startTime_startTest minute words_4 wpm_4 round_wpm_4 percent_4_5
          Math_round_numeral)
  have v2: "Stats.accuracy (calculateStats (startTest 1000 (initialTypingTest (exampleTypingConfig True) ''abcde''))
        61000 [] ''abcde'') = 100
   \<and> Stats.wpm (calculateStats (initialTypingTest (exampleTypingConfig True) ''abcde'')
        61000 ''abxde'' ''abcde'') = 0"
    using calculateStats_formulas
            [of "[]" "''abcde''"
                "startTest 1000 (initialTypingTest (exampleTypingConfig True) ''abcde'')" 61000]
          calculateStats_formulas
            [of "''abxde''" "''abcde''" "initialTypingTest (exampleTypingConfig True) ''abcde''" 61000]
          h2
    by (simp add: Let_def)
  have v3: "Stats.accuracy (calculateStats (startTest 1000 (initialTypingTest (exampleTypingConfig True) reference40))
        61000 typed23of40 reference40) = 57
   \<and> errorsCount (calculateStats (startTest 1000 (initialTypingTest (exampleTypingConfig True) reference40))
        61000 typed23of40 reference40) = 17"
    using calculateStats_formulas
            [of typed23of40 reference40
                "startTest 1000 (initialTypingTest (exampleTypingConfig True) reference40)" 61000]
          correct_and_errors [OF c2]
    by (simp add: Let_def l2 ratio_23_40 percent_23_40 round_percent_23_40)
  have v4: "Stats.wpm (calculateStats (startTest 1000 (initialTypingTest (exampleTypingConfig True) ''abcdefgh''))
        1064 ''abcdefg'' ''abcdefgh'') = 1312"
    using calculateStats_formulas
            [of "''abcdefg''" "''abcdefgh''"
                "startTest 1000 (initialTypingTest (exampleTypingConfig True) ''abcdefgh'')" 1064]
          correct_and_errors [OF c3] h4
    by (simp add: Let_def startTime_startTest blink words_7 wpm_7 round_wpm_7)
  show ?thesis
    using h1 h2 h3 h4 v1 v2 v3 v4 by blast
qed

text \<open>
  C8. For every input, reference text, start time and clock reading, the accuracy lies
  between 0 and 100 and the speed is not negative.
\<close>

theorem calculateStats_bounds:
  "0 \<le> Stats.accuracy (calculateStats st now inp ref)
   \<and> Stats.accuracy (calculateStats st now inp ref) \<le> 100
   \<and> 0 \<le> Stats.wpm (calculateStats st now inp ref)"
proof -
  obtain c e where ce: "compareChars inp ref (0, 0) = (c, e)"
    by (cases "compareChars inp ref (0, 0)")
  have c_le: "c \<le> length inp"
    using fst_compareChars_le [of inp ref] ce by simp
  let ?n = "of_nat (length inp) :: rat"
  have acc: "0 \<le> Math_round (fmul (fdiv (of_nat c) ?n) 100)
           \<and> Math_round (fmul (fdiv (of_nat c) ?n) 100) \<le> 100" if "0 < length inp"
  proof -
    have q: "(0::rat) \<le> of_nat c / ?n" "(of_nat c :: rat) / ?n \<le> 1"
      using c_le that by (simp_all add: divide_le_eq_1)
    have d: "fdiv (of_nat c) ?n = fl (of_nat c / ?n)"
      by (simp add: fdiv_def fl_of_nat)
    have a0: "of_int 0 \<le> fdiv (of_nat c) ?n"
      unfolding d using q(1) by (intro fl_ge_of_int) simp
    have a1: "fdiv (of_nat c) ?n \<le> of_int 1"
      unfolding d using q(2) by (intro fl_le_of_int) simp
    have b0: "of_int 0 \<le> fl (fdiv (of_nat c) ?n)"
      using a0 by (rule fl_ge_of_int)
    have b1: "fl (fdiv (of_nat c) ?n) \<le> of_int 1"
      using a1 by (rule fl_le_of_int)
    have h: "fl 100 = 100"
      using fl_of_int [of 100] by simp
    have c0: "of_int 0 \<le> fl (fdiv (of_nat c) ?n) * fl 100"
      using b0 by (simp add: h)
    have c1: "fl (fdiv (of_nat c) ?n) * fl 100 \<le> of_int 100"
      using b1 by (simp add: h)
    have "of_int 0 \<le> fmul (fdiv (of_nat c) ?n) 100"
      unfolding fmul_def using c0 by (rule fl_ge_of_int)
    moreover have "fmul (fdiv (of_nat c) ?n) 100 \<le> of_int 100"
      unfolding fmul_def using c1 by (rule fl_le_of_int)
    ultimately show ?thesis
      using Math_round_ge [of 0 "fmul (fdiv (of_nat c) ?n) 100"]
            Math_round_le [of "fmul (fdiv (of_nat c) ?n) 100" 100] by simp
  qed
  have w: "0 \<le> Math_round (fdiv (fdiv (of_nat c) 5) t)" if "0 < t" for t :: rat
  proof -
    have "0 \<le> fdiv (of_nat c) 5"
      unfolding fdiv_def using fl_of_int [of 5] by (intro fl_nonneg) (simp add: fl_of_nat)
    then have "0 \<le> fl (fdiv (of_nat c) 5)" by (rule fl_nonneg)
    moreover have "0 < fl t" using that by (rule fl_pos)
    ultimately have "0 \<le> fdiv (fdiv (of_nat c) 5) t"
      unfolding fdiv_def [of "fdiv (of_nat c) 5" t] by (intro fl_nonneg) simp
    then show ?thesis
      using Math_round_ge [of 0 "fdiv (fdiv (of_nat c) 5) t"] by simp
  qed
  show ?thesis
    using acc w by (simp add: calculateStats_def Let_def ce)
qed

subsection \<open>Fraud score and verdict of the typing test\<close>

lemma floor_half: "\<lfloor>1 / 2 :: rat\<rfloor> = 0"
  by (simp add: floor_eq_iff)

lemma fraudAnalysis_score:
  "fst (fraudAnalysis config st) =
     (if TypingConfig.fraudDetectionEnabled config then
        (if avgTimeBetweenKeystrokes (keystrokeData st) < 50 then 3 / 10 else 0)
        + (if 2 < focusLostCount st then 2 / 10 else 0)
        + (if fraudAlerts st \<noteq> [] then 2 / 10 else 0)
      else 0)"
  by (simp add: fraudAnalysis_def Let_def)

lemma fraudAnalysis_indicators:
  "snd (fraudAnalysis config st) =
     (if TypingConfig.fraudDetectionEnabled config then
        (if avgTimeBetweenKeystrokes (keystrokeData st) < 50
         then [''Unusually fast typing detected''] else [])
        @ (if 2 < focusLostCount st then [''Multiple focus losses during test''] else [])
        @ fraudAlerts st
      else [])"
  by (simp add: fraudAnalysis_def Let_def)

text \<open>The sums of the three increments are multiples of a hundredth: rounding keeps them.\<close>

lemma fraud_round_id:
  "of_int (Math_round (fst (fraudAnalysis config st) * 100)) / 100 = fst (fraudAnalysis config st)"
  by (simp add: fraudAnalysis_score Math_round_def floor_divide_numeral floor_half)

lemma handleTestComplete_fraudScore:
  "fraudScore (snd (handleTestComplete config auto now st)) = fst (fraudAnalysis config st)"
  using fraud_round_id [of config st]
  by (simp add: handleTestComplete_def Let_def split_beta)

lemma handleTestComplete_fraudIndicators:
  "fraudIndicators (snd (handleTestComplete config auto now st)) = snd (fraudAnalysis config st)"
  by (simp add: handleTestComplete_def Let_def split_beta)

text \<open>
  The example sessions, evaluated event by event; the statistics are left as they are.
\<close>

lemma exampleTypingRun_fields:
  "focusLostCount (typing_run (exampleTypingConfig True) ''abcdefgh'' exampleTypingEvents) = 3
   \<and> fraudAlerts (typing_run (exampleTypingConfig True) ''abcdefgh'' exampleTypingEvents) =
       [''Browser focus lost during test'', ''Browser focus lost during test'',
        ''Browser focus lost during test'']
   \<and> avgTimeBetweenKeystrokes
        (keystrokeData (typing_run (exampleTypingConfig True) ''abcdefgh'' exampleTypingEvents)) = 30"
  by (simp add: typing_run_def exampleTypingEvents_def exampleTypingConfig_def
        initialTypingTest_def startTest_def handleInputChange_def handleFocusLoss_def Let_def
        avgTimeBetweenKeystrokes_def)

lemma startedRun_fields:
  "keystrokeData (typing_run (exampleTypingConfig True) ''abcdefgh'' [ClickStart 1000]) = []
   \<and> focusLostCount (typing_run (exampleTypingConfig True) ''abcdefgh'' [ClickStart 1000]) = 0
   \<and> fraudAlerts (typing_run (exampleTypingConfig True) ''abcdefgh'' [ClickStart 1000]) = []"
  by (simp add: typing_run_def initialTypingTest_def startTest_def)

text \<open>
  C7. In the result of the typing test, \<open>passed\<close> holds exactly when
  \<open>wpm >= minimumWpm\<close>, \<open>accuracy >= minimumAccuracy\<close> and \<open>fraudScore < 0.7\<close>; and the
  fraud score is 0 when fraud detection is disabled.
\<close>

theorem typing_passed_iff:
  "(TypingTestResult.passed (snd (handleTestComplete config auto now st)) \<longleftrightarrow>
      TypingConfig.minimumWpm config
        \<le> of_int (TypingTestResult.wpm (snd (handleTestComplete config auto now st)))
      \<and> TypingConfig.minimumAccuracy config
        \<le> of_int (TypingTestResult.accuracy (snd (handleTestComplete config auto now st)))
      \<and> fraudScore (snd (handleTestComplete config auto now st)) < 7 / 10)
   \<and> (\<not> TypingConfig.fraudDetectionEnabled config \<longrightarrow>
        fraudScore (snd (handleTestComplete config auto now st)) = 0)"
proof -
  have "TypingTestResult.passed (snd (handleTestComplete config auto now st)) \<longleftrightarrow>
      TypingConfig.minimumWpm config
        \<le> of_int (TypingTestResult.wpm (snd (handleTestComplete config auto now st)))
      \<and> TypingConfig.minimumAccuracy config
        \<le> of_int (TypingTestResult.accuracy (snd (handleTestComplete config auto now st)))
      \<and> fst (fraudAnalysis config st) < 7 / 10"
    by (simp add: handleTestComplete_def Let_def split_beta)
  moreover have "\<not> TypingConfig.fraudDetectionEnabled config \<longrightarrow> fst (fraudAnalysis config st) = 0"
    by (simp add: fraudAnalysis_score)
  ultimately show ?thesis
    by (simp only: handleTestComplete_fraudScore)
qed

text \<open>
  The witness: with fraud detection disabled the example session has fraud score 0; with
  it enabled the session reaches 0.7 and fails.
\<close>

theorem typing_passed_iff_witness:
  "\<not> TypingConfig.fraudDetectionEnabled (exampleTypingConfig False)
   \<and> fraudScore (snd (handleTestComplete (exampleTypingConfig False) True 2000
        (typing_run (exampleTypingConfig False) ''abcdefgh'' exampleTypingEvents))) = 0
   \<and> \<not> TypingTestResult.passed (snd (handleTestComplete (exampleTypingConfig True) True 2000
        (typing_run (exampleTypingConfig True) ''abcdefgh'' exampleTypingEvents)))"
proof -
  have h: "\<not> TypingConfig.fraudDetectionEnabled (exampleTypingConfig False)"
    by (simp add: exampleTypingConfig_def)
  have on: "TypingConfig.fraudDetectionEnabled (exampleTypingConfig True)"
    by (simp add: exampleTypingConfig_def)
  have "fraudScore (snd (handleTestComplete (exampleTypingConfig True) True 2000
          (typing_run (exampleTypingConfig True) ''abcdefgh'' exampleTypingEvents))) = 7 / 10"
    using on exampleTypingRun_fields
    by (simp add: handleTestComplete_fraudScore fraudAnalysis_score)
  then have "\<not> TypingTestResult.passed (snd (handleTestComplete (exampleTypingConfig True) True 2000
        (typing_run (exampleTypingConfig True) ''abcdefgh'' exampleTypingEvents)))"
    using typing_passed_iff [of "exampleTypingConfig True" True 2000
            "typing_run (exampleTypingConfig True) ''abcdefgh'' exampleTypingEvents"]
    by simp
  then show ?thesis
    using h typing_passed_iff [of "exampleTypingConfig False" True 2000
            "typing_run (exampleTypingConfig False) ''abcdefgh'' exampleTypingEvents"]
    by blast
qed

text \<open>
  C9. With fraud detection enabled and fewer than two keystroke events in the log, the
  average interval is 0, the rule \<open>average < 50\<close> fires: the fraud score is 0.3 plus what
  the other two rules add, and the indicators start with
  \<open>Unusually fast typing detected\<close>.
\<close>

theorem few_keystrokes_flagged:
  assumes "TypingConfig.fraudDetectionEnabled config" and "length (keystrokeData st) < 2"
  shows "avgTimeBetweenKeystrokes (keystrokeData st) = 0
       \<and> fraudScore (snd (handleTestComplete config auto now st)) =
           3 / 10 + (if 2 < focusLostCount st then 2 / 10 else 0)
                  + (if fraudAlerts st \<noteq> [] then 2 / 10 else 0)
       \<and> fraudIndicators (snd (handleTestComplete config auto now st)) =
           ''Unusually fast typing detected''
             # (if 2 < focusLostCount st then [''Multiple focus losses during test''] else [])
             @ fraudAlerts st"
proof -
  have avg: "avgTimeBetweenKeystrokes (keystrokeData st) = 0"
    using assms(2) by (simp add: avgTimeBetweenKeystrokes_def)
  show ?thesis
    using assms(1) avg
    by (simp add: handleTestComplete_fraudScore handleTestComplete_fraudIndicators
          fraudAnalysis_score fraudAnalysis_indicators)
qed

text \<open>The witness: the test is started and submitted at once, with nothing typed.\<close>

theorem few_keystrokes_flagged_witness:
  "TypingConfig.fraudDetectionEnabled (exampleTypingConfig True)
   \<and> length (keystrokeData (typing_run (exampleTypingConfig True) ''abcdefgh'' [ClickStart 1000])) < 2
   \<and> fraudScore (snd (handleTestComplete (exampleTypingConfig True) True 2000
        (typing_run (exampleTypingConfig True) ''abcdefgh'' [ClickStart 1000]))) = 3 / 10
   \<and> fraudIndicators (snd (handleTestComplete (exampleTypingConfig True) True 2000
        (typing_run (exampleTypingConfig True) ''abcdefgh'' [ClickStart 1000]))) =
       [''Unusually fast typing detected'']"
proof -
  have h1: "TypingConfig.fraudDetectionEnabled (exampleTypingConfig True)"
    by (simp add: exampleTypingConfig_def)
  have h2: "length (keystrokeData (typing_run (exampleTypingConfig True) ''abcdefgh'' [ClickStart 1000])) < 2"
    using startedRun_fields by simp
  have v: "focusLostCount (typing_run (exampleTypingConfig True) ''abcdefgh'' [ClickStart 1000]) = 0
         \<and> fraudAlerts (typing_run (exampleTypingConfig True) ''abcdefgh'' [ClickStart 1000]) = []"
    using startedRun_fields by simp
  show ?thesis
    using h1 h2 v few_keystrokes_flagged [OF h1 h2, of True 2000] by simp
qed

subsection \<open>Focus losses and alerts\<close>

lemma alerts_inv_initial: "alerts_inv (initialTypingTest config ref)"
  by (simp add: alerts_inv_def initialTypingTest_def)

lemma alerts_inv_handleFocusLoss:
  "TypingConfig.fraudDetectionEnabled config \<Longrightarrow> alerts_inv st \<Longrightarrow>
     alerts_inv (handleFocusLoss config st)"
  by (simp add: alerts_inv_def handleFocusLoss_def)

lemma alerts_inv_handleTestComplete:
  "alerts_inv st \<Longrightarrow> alerts_inv (fst (handleTestComplete config auto now st))"
  by (simp add: alerts_inv_def handleTestComplete_def Let_def split_beta)

lemma alerts_inv_handleInputChange:
  "alerts_inv st \<Longrightarrow> alerts_inv (fst (handleInputChange config v now st))"
  by (simp add: alerts_inv_def handleInputChange_def Let_def startTest_def)

lemma alerts_inv_tick:
  "alerts_inv st \<Longrightarrow> alerts_inv (fst (tick config now st))"
  using alerts_inv_handleTestComplete [of st config True now]
  by (simp add: tick_def split_beta) (simp add: alerts_inv_def)

lemma alerts_inv_step:
  assumes "TypingConfig.fraudDetectionEnabled config" and "alerts_inv st"
  shows "alerts_inv (typing_step config st ev)"
proof (cases ev)
  case (ClickStart now)
  then show ?thesis
    using assms(2) by (simp add: alerts_inv_def startTest_def)
next
  case (Change v now)
  then show ?thesis
    using assms(2) alerts_inv_handleInputChange by simp
next
  case Blur
  then show ?thesis
    using assms alerts_inv_handleFocusLoss by simp
next
  case (VisibilityChange hidden)
  then show ?thesis
    using assms alerts_inv_handleFocusLoss by (simp add: handleVisibilityChange_def)
next
  case (Tick now)
  then show ?thesis
    using assms(2) alerts_inv_tick by simp
next
  case (SubmitEarly now)
  then show ?thesis
    using assms(2) alerts_inv_handleTestComplete by simp
qed

lemma alerts_inv_foldl:
  "TypingConfig.fraudDetectionEnabled config \<Longrightarrow> alerts_inv st \<Longrightarrow>
     alerts_inv (foldl (typing_step config) st evs)"
  by (induction evs arbitrary: st) (simp_all add: alerts_inv_step)

lemma alerts_inv_run:
  "TypingConfig.fraudDetectionEnabled config \<Longrightarrow> alerts_inv (typing_run config ref evs)"
  unfolding typing_run_def by (rule alerts_inv_foldl) (simp_all add: alerts_inv_initial)

lemma all_focus_replicate:
  assumes "set xs \<subseteq> {a, b}" and "b \<notin> set xs"
  shows "xs = replicate (length (filter (\<lambda>x. x = a) xs)) a"
  using assms by (induction xs) auto

text \<open>
  C3, as stated, fails. In the example session fraud detection is enabled, the average
  interval is 30 ms, the focus was lost three times and no rapid typing was flagged; yet
  the fraud score is not 0.50 and the indicators are not just the two rule names: each
  loss of focus has also been recorded as an alert, and the alerts add 0.2.
\<close>

theorem fraud_score_half_counterexample:
  "TypingConfig.fraudDetectionEnabled (exampleTypingConfig True)
   \<and> avgTimeBetweenKeystrokes
        (keystrokeData (typing_run (exampleTypingConfig True) ''abcdefgh'' exampleTypingEvents)) = 30
   \<and> focusLostCount (typing_run (exampleTypingConfig True) ''abcdefgh'' exampleTypingEvents) = 3
   \<and> ''Suspicious rapid typing detected''
        \<notin> set (fraudAlerts (typing_run (exampleTypingConfig True) ''abcdefgh'' exampleTypingEvents))
   \<and> fraudScore (snd (handleTestComplete (exampleTypingConfig True) True 2000
        (typing_run (exampleTypingConfig True) ''abcdefgh'' exampleTypingEvents))) \<noteq> 1 / 2
   \<and> fraudIndicators (snd (handleTestComplete (exampleTypingConfig True) True 2000
        (typing_run (exampleTypingConfig True) ''abcdefgh'' exampleTypingEvents)))
       \<noteq> [''Unusually fast typing detected'', ''Multiple focus losses during test'']"
  using exampleTypingRun_fields
  by (simp add: handleTestComplete_fraudScore handleTestComplete_fraudIndicators
        fraudAnalysis_score fraudAnalysis_indicators exampleTypingConfig_def)

text \<open>
  C3, amended. In every state that a typing test with fraud detection enabled can reach,
  if the average interval is 30 ms, the focus-loss count is 3 and no rapid typing was
  flagged, then the alerts are the three focus alerts, the final fraud score is
  0.3 + 0.2 + 0.2 = 0.70, and the indicators are the two rule names followed by the three
  focus alerts.
\<close>

theorem focus_losses_are_alerts:
  assumes "TypingConfig.fraudDetectionEnabled config"
    and "avgTimeBetweenKeystrokes (keystrokeData (typing_run config ref evs)) = 30"
    and "focusLostCount (typing_run config ref evs) = 3"
    and "''Suspicious rapid typing detected'' \<notin> set (fraudAlerts (typing_run config ref evs))"
  shows "fraudAlerts (typing_run config ref evs) = replicate 3 ''Browser focus lost during test''
       \<and> fraudScore (snd (handleTestComplete config auto now (typing_run config ref evs))) = 7 / 10
       \<and> fraudIndicators (snd (handleTestComplete config auto now (typing_run config ref evs))) =
           [''Unusually fast typing detected'', ''Multiple focus losses during test'',
            ''Browser focus lost during test'', ''Browser focus lost during test'',
            ''Browser focus lost during test'']"
proof -
  let ?st = "typing_run config ref evs"
  have inv: "alerts_inv ?st"
    using assms(1) by (rule alerts_inv_run)
  have "fraudAlerts ?st =
          replicate (length (filter (\<lambda>x. x = ''Browser focus lost during test'') (fraudAlerts ?st)))
            ''Browser focus lost during test''"
    using inv assms(4)
    by (intro all_focus_replicate [where b = "''Suspicious rapid typing detected''"])
       (simp_all add: alerts_inv_def)
  then have alerts: "fraudAlerts ?st = replicate 3 ''Browser focus lost during test''"
    using inv assms(3) by (simp add: alerts_inv_def)
  show ?thesis
    using assms(1,2,3) alerts
    by (simp add: handleTestComplete_fraudScore handleTestComplete_fraudIndicators
          fraudAnalysis_score fraudAnalysis_indicators numeral_3_eq_3)
qed

theorem focus_losses_are_alerts_witness:
  "TypingConfig.fraudDetectionEnabled (exampleTypingConfig True)
   \<and> avgTimeBetweenKeystrokes
        (keystrokeData (typing_run (exampleTypingConfig True) ''abcdefgh'' exampleTypingEvents)) = 30
   \<and> focusLostCount (typing_run (exampleTypingConfig True) ''abcdefgh'' exampleTypingEvents) = 3
   \<and> ''Suspicious rapid typing detected''
        \<notin> set (fraudAlerts (typing_run (exampleTypingConfig True) ''abcdefgh'' exampleTypingEvents))
   \<and> fraudScore (snd (handleTestComplete (exampleTypingConfig True) True 2000
        (typing_run (exampleTypingConfig True) ''abcdefgh'' exampleTypingEvents))) = 7 / 10"
proof -
  have h1: "TypingConfig.fraudDetectionEnabled (exampleTypingConfig True)"
    by (simp add: exampleTypingConfig_def)
  have h2: "avgTimeBetweenKeystrokes
        (keystrokeData (typing_run (exampleTypingConfig True) ''abcdefgh'' exampleTypingEvents)) = 30"
    using exampleTypingRun_fields by simp
  have h3: "focusLostCount (typing_run (exampleTypingConfig True) ''abcdefgh'' exampleTypingEvents) = 3"
    using exampleTypingRun_fields by simp
  have h4: "''Suspicious rapid typing detected''
        \<notin> set (fraudAlerts (typing_run (exampleTypingConfig True) ''abcdefgh'' exampleTypingEvents))"
    using exampleTypingRun_fields by simp
  show ?thesis
    using h1 h2 h3 h4 focus_losses_are_alerts [OF h1 h2 h3 h4, of True 2000] by simp
qed

subsection \<open>Answers per question\<close>

text \<open>
  The updater of \<^verbatim>\<open>handlePreviousQuestion\<close> keeps the question ids of the answers
  distinct; the submit handlers append whatever is already there.
\<close>

lemma findIndex_Some:
  "findIndex P xs = Some i \<Longrightarrow> i < length xs \<and> P (xs ! i)"
  by (induction xs arbitrary: i) (auto split: if_splits)

lemma findIndex_None: "findIndex P xs = None \<Longrightarrow> \<forall>x \<in> set xs. \<not> P x"
  by (induction xs) (auto split: if_splits)

lemma updateOrAdd_distinct:
  assumes "distinct (map Answer.questionId prev)"
  shows "distinct (map Answer.questionId (updateOrAdd tempAnswer prev))"
proof (cases "findIndex (\<lambda>a. Answer.questionId a = Answer.questionId tempAnswer) prev")
  case None
  then have "Answer.questionId tempAnswer \<notin> set (map Answer.questionId prev)"
    using findIndex_None [OF None] by auto
  with assms None show ?thesis
    by (simp add: updateOrAdd_def)
next
  case (Some i)
  then have i: "i < length prev" "Answer.questionId (prev ! i) = Answer.questionId tempAnswer"
    using findIndex_Some [OF Some] by auto
  then have "map Answer.questionId (prev[i := tempAnswer]) = map Answer.questionId prev"
    by (simp add: map_update list_update_same_conv)
  with assms Some show ?thesis
    by (simp add: updateOrAdd_def)
qed

lemma submit_appends:
  "submit config rnds now a st = Inr (st', r) \<Longrightarrow> answers st' = answers st @ [a]"
  by (auto simp: submit_def startQuestion_def completeInterview_def Let_def
        split: if_splits sum.splits)

lemma handleSubmitAnswer_appends:
  "handleSubmitAnswer config rnds now st = Inr (st', r) \<Longrightarrow>
     length (answers st') = length (answers st) + 1
     \<and> Answer.questionId (last (answers st')) = qid (questions st ! currentQuestionIndex st)"
  by (auto simp: handleSubmitAnswer_def dest!: submit_appends split: if_splits)

text \<open>
  C4 at a failing input. After submitting \<open>first\<close> for question \<open>q1\<close>, going back and
  submitting \<open>second\<close> for \<open>q1\<close>, the interview holds two answer records for \<open>q1\<close>: the
  submit handler appends, where the handler of \<^verbatim>\<open>Previous\<close> replaces by question id.
\<close>

theorem resubmit_duplicates_answer:
  "resubmitScenario = Inr [(''q1'', ''first''), (''q2'', []), (''q1'', ''second'')]"
  by code_simp

subsection \<open>The ATS gate\<close>

lemma render_unconfigured: "jobConfig st = None \<Longrightarrow> render st = LoadingView"
  by (simp add: render_def)

lemma startNextPhaseEnabled_unconfigured: "jobConfig st = None \<Longrightarrow> \<not> startNextPhaseEnabled st"
  by (simp add: startNextPhaseEnabled_def)

lemma coordinator_step_unconfigured:
  "jobConfig st = None \<Longrightarrow> pendingTimeouts st = [] \<Longrightarrow> coordinator_step st ev = st"
  by (cases ev) (simp_all add: render_unconfigured startNextPhaseEnabled_unconfigured)

lemma coordinator_run_unconfigured:
  "jobConfig st = None \<Longrightarrow> pendingTimeouts st = [] \<Longrightarrow> coordinator_run st evs = st"
  unfolding coordinator_run_def
  by (induction evs) (simp_all add: coordinator_step_unconfigured)

lemma initializeTest_below_minimum:
  "candidateAtsScore app < ats_minimum_score job \<Longrightarrow>
     initializeTest parse (Some job) (Some app) initialCoordinator =
       initialCoordinator\<lparr> toasts := [atsRequirementNotMet (ats_minimum_score job) (candidateAtsScore app)] \<rparr>"
  by (simp add: initializeTest_def Let_def initialCoordinator_def)

text \<open>
  C5. When the candidate's ATS score is below the job's minimum, then after the
  initialisation and any sequence of events: the coordinator still renders the loading
  card, so neither \<^verbatim>\<open>TypingTest\<close> nor \<^verbatim>\<open>AIInterview\<close> is ever mounted and no question is
  generated; the current phase is still \<open>overview\<close> and no phase has status \<open>active\<close>;
  there are no overall results and the overall outcome is false; and the one toast shown
  is the rejection with the required and the actual score.
\<close>

theorem ats_gate_is_terminal:
  assumes "candidateAtsScore app < ats_minimum_score job"
  shows "render (coordinator_run (initializeTest parse (Some job) (Some app) initialCoordinator) evs)
           = LoadingView
       \<and> currentPhase (coordinator_run (initializeTest parse (Some job) (Some app) initialCoordinator) evs)
           = ''overview''
       \<and> (\<forall>p \<in> set (testPhases
                (coordinator_run (initializeTest parse (Some job) (Some app) initialCoordinator) evs)).
             status p \<noteq> active)
       \<and> overallResults (coordinator_run (initializeTest parse (Some job) (Some app) initialCoordinator) evs)
           = None
       \<and> \<not> overallOutcome (coordinator_run (initializeTest parse (Some job) (Some app) initialCoordinator) evs)
       \<and> toasts (coordinator_run (initializeTest parse (Some job) (Some app) initialCoordinator) evs) =
           [atsRequirementNotMet (ats_minimum_score job) (candidateAtsScore app)]"
proof -
  define g where
    "g = initialCoordinator\<lparr> toasts := [atsRequirementNotMet (ats_minimum_score job) (candidateAtsScore app)] \<rparr>"
  have st: "initializeTest parse (Some job) (Some app) initialCoordinator = g"
    using assms unfolding g_def by (rule initializeTest_below_minimum)
  have "jobConfig g = None" and "pendingTimeouts g = []"
    by (simp_all add: g_def initialCoordinator_def)
  then have run: "coordinator_run g evs = g"
    by (rule coordinator_run_unconfigured)
  have "render g = LoadingView
       \<and> currentPhase g = ''overview''
       \<and> (\<forall>p \<in> set (testPhases g). status p \<noteq> active)
       \<and> overallResults g = None
       \<and> \<not> overallOutcome g
       \<and> toasts g = [atsRequirementNotMet (ats_minimum_score job) (candidateAtsScore app)]"
    by (simp add: g_def initialCoordinator_def render_def overallOutcome_def)
  then show ?thesis
    unfolding st run by blast
qed

text \<open>The witness: a score of 65 against a minimum of 70, and four events.\<close>

theorem ats_gate_is_terminal_witness:
  "candidateAtsScore (exampleApplication 65) < ats_minimum_score exampleJob
   \<and> render (coordinator_run
        (initializeTest (\<lambda>s. None) (Some exampleJob) (Some (exampleApplication 65)) initialCoordinator)
        [ClickStartNextPhase, TimeoutFires, TypingTestCancelled, InterviewCancelled]) = LoadingView
   \<and> \<not> overallOutcome (coordinator_run
        (initializeTest (\<lambda>s. None) (Some exampleJob) (Some (exampleApplication 65)) initialCoordinator)
        [ClickStartNextPhase, TimeoutFires, TypingTestCancelled, InterviewCancelled])
   \<and> map toastDescription (toasts (coordinator_run
        (initializeTest (\<lambda>s. None) (Some exampleJob) (Some (exampleApplication 65)) initialCoordinator)
        [ClickStartNextPhase, TimeoutFires, TypingTestCancelled, InterviewCancelled])) =
       [''Minimum ATS score of 70 required. Current score: 65'']"
proof -
  have h: "candidateAtsScore (exampleApplication 65) < ats_minimum_score exampleJob"
    by (simp add: candidateAtsScore_def exampleApplication_def exampleJob_def)
  have d: "toastDescription (atsRequirementNotMet (ats_minimum_score exampleJob)
             (candidateAtsScore (exampleApplication 65)))
             = ''Minimum ATS score of 70 required. Current score: 65''"
    by code_simp
  show ?thesis
    using h d ats_gate_is_terminal [OF h, of "\<lambda>s. None"
            "[ClickStartNextPhase, TimeoutFires, TypingTestCancelled, InterviewCancelled]"]
    by simp
qed

end
